theory Spec2Isabelle
  imports Complex_Main "HOL-Library.Sublist" "HOL-Library.List_Lexorder" "HOL-Library.Char_ord"
begin

section \<open>Python values and exceptions\<close>

text \<open>
  The sources are Python. A call that raises is modelled by a value: \<open>error + 'a\<close> with
  \<open>Inl\<close> for the exception raised. The values of \<open>error\<close> stand for instances of Python's
  \<open>Exception\<close> class, which is what every \<open>except Exception\<close> clause of the sources
  catches. Floats (wall-clock seconds, latencies, accuracies) are modelled as reals, Python
  integers as \<open>int\<close>, strings as \<open>string\<close>.
\<close>

datatype error =
    InvalidInputError string
  | KeyError string
  | ValueError string
  | Exception string

type_synonym 'a result = "error + 'a"

text \<open>
  Modelled from the spec: \<open>invalidInputError\<close> (module \<open>bigdl.nano.utils.log4Error\<close>) is not
  among the sources. As its name and its use in an \<open>except\<close> clause say, it raises an error
  carrying the message when the condition is false, and does nothing otherwise.
\<close>

definition invalidInputError :: "bool \<Rightarrow> string \<Rightarrow> error option" where
  "invalidInputError condition errMsg =
     (if condition then None else Some (InvalidInputError errMsg))"


section \<open>orca: the estimator factory (estimator.py)\<close>

text \<open>
  The two estimator classes live in modules that are imported inside the branches; an
  estimator object is modelled by its class and the keyword arguments it is built from.
\<close>

datatype ('mc, 'cfg, 'cac) estimator =
    TensorFlow2Estimator 'mc "'cfg option" bool int string "'cac option" bool
  | SparkTFEstimator 'mc "'cfg option" bool "'cac option" int

definition from_keras ::
  "'mc \<Rightarrow> 'cfg option \<Rightarrow> bool \<Rightarrow> int \<Rightarrow> 'cac option \<Rightarrow> string \<Rightarrow> bool
     \<Rightarrow> ('mc, 'cfg, 'cac) estimator result" where
  "from_keras model_creator config verbose workers_per_node compile_args_creator backend
       cpu_binding =
     (if backend \<in> {''tf2'', ''horovod''} then
        Inr (TensorFlow2Estimator model_creator config verbose workers_per_node backend
               compile_args_creator cpu_binding)
      else if backend = ''spark'' then
        Inr (SparkTFEstimator model_creator config verbose compile_args_creator
               workers_per_node)
      else
        Inl (ValueError (''Only horovod, tf2 and spark backends are supported''
                         @ '' for now, got backend: '' @ backend)))"


section \<open>pyspark: the dataset readers (imagenet.py, dl\_classifier\_lenet.py)\<close>

text \<open>
  A \<open>Sample\<close> is one (features, label) pair. An RDD is modelled by the list of its elements
  (\<open>sc.parallelize\<close> keeps the order of the list it is given, \<open>map\<close> works elementwise).
\<close>

record 'f Sample =
  features :: 'f
  label :: int

text \<open>
  The file system, OpenCV and numpy are outside the repository; what they return is a
  parameter. \<open>listdir\<close> raises on a path that is no directory.
\<close>

record 'img os_env =
  listdir :: "string \<Rightarrow> string list result"
  join :: "string \<Rightarrow> string \<Rightarrow> string"
  cv2_imread :: "string \<Rightarrow> int \<Rightarrow> 'img"
  cv2_resize :: "'img \<Rightarrow> int \<times> int \<Rightarrow> 'img"
  ndarray_and :: "'img \<Rightarrow> int \<Rightarrow> 'img"
  ndarray_div :: "'img \<Rightarrow> real \<Rightarrow> 'img"

text \<open>Python's \<open>list.index\<close>: the position of the first occurrence, ValueError if there is none.\<close>

fun list_index :: "'a list \<Rightarrow> 'a \<Rightarrow> nat result" where
  "list_index [] x = Inl (ValueError ''x not in list'')"
| "list_index (y # ys) x =
     (if y = x then Inr 0
      else case list_index ys x of Inl e \<Rightarrow> Inl e | Inr i \<Rightarrow> Inr (Suc i))"

definition resize_image :: "'img os_env \<Rightarrow> 'img \<Rightarrow> int \<Rightarrow> int \<Rightarrow> 'img" where
  "resize_image os img resize_width resize_height =
     cv2_resize os img (resize_width, resize_height)"

text \<open>The inner loop of \<open>read_local\<close>: the files of directory \<open>d\<close>, appended to \<open>images\<close>.\<close>

fun append_files ::
  "'img os_env \<Rightarrow> string \<Rightarrow> string list \<Rightarrow> string \<Rightarrow> string list
     \<Rightarrow> (string \<times> int) list \<Rightarrow> (string \<times> int) list result" where
  "append_files os folder dirs d [] images = Inr images"
| "append_files os folder dirs d (f # fs) images =
     (case list_index dirs d of
        Inl e \<Rightarrow> Inl e
      | Inr i \<Rightarrow>
          append_files os folder dirs d fs
            (images @ [(join os (join os folder d) f, int i + 1)]))"

text \<open>The outer loop of \<open>read_local\<close>, over the directories still to visit.\<close>

fun append_dirs ::
  "'img os_env \<Rightarrow> string \<Rightarrow> string list \<Rightarrow> string list
     \<Rightarrow> (string \<times> int) list \<Rightarrow> (string \<times> int) list result" where
  "append_dirs os folder dirs [] images = Inr images"
| "append_dirs os folder dirs (d # ds) images =
     (case listdir os (join os folder d) of
        Inl e \<Rightarrow> Inl e
      | Inr fs \<Rightarrow>
          (case append_files os folder dirs d fs images of
             Inl e \<Rightarrow> Inl e
           | Inr images' \<Rightarrow> append_dirs os folder dirs ds images'))"

text \<open>The four \<open>map\<close> stages of \<open>read_local\<close>, applied to one (path, label) element.\<close>

definition to_sample :: "'img os_env \<Rightarrow> real \<Rightarrow> string \<times> int \<Rightarrow> 'img Sample" where
  "to_sample os normalize_value pl =
     (case pl of (path, lbl) \<Rightarrow>
        (case (cv2_imread os path 1, lbl) of (img, lbl) \<Rightarrow>
        (case (resize_image os img 256 256, lbl) of (feats, lbl) \<Rightarrow>
        (case (ndarray_div os (ndarray_and os feats 255) normalize_value, lbl) of (feats, lbl) \<Rightarrow>
           \<lparr>features = feats, label = lbl\<rparr>))))"

definition read_local :: "'img os_env \<Rightarrow> string \<Rightarrow> real \<Rightarrow> 'img Sample list result" where
  "read_local os folder normalize_value =
     (case listdir os folder of
        Inl e \<Rightarrow> Inl e
      | Inr listing \<Rightarrow>
          (let dirs = sort listing in
           case append_dirs os folder dirs dirs [] of
             Inl e \<Rightarrow> Inl e
           | Inr images \<Rightarrow> Inr (map (to_sample os normalize_value) images)))"

text \<open>
  \<open>get_mnist\<close>: \<open>mnist.read_data_sets\<close> is outside the sources and is a parameter. Spark's
  \<open>zip\<close> needs both collections to have the same number of elements and fails otherwise.
\<close>

definition rdd_zip :: "'a list \<Rightarrow> 'b list \<Rightarrow> ('a \<times> 'b) list result" where
  "rdd_zip xs ys =
     (if length xs = length ys then Inr (zip xs ys)
      else Inl (Exception ''Can only zip RDDs with same number of elements''))"

definition get_mnist ::
  "(string \<Rightarrow> string \<Rightarrow> 'img list \<times> int list) \<Rightarrow> string \<Rightarrow> string \<Rightarrow> 'img Sample list result"
  where
  "get_mnist read_data_sets data_type location =
     (case read_data_sets location data_type of (images, labels) \<Rightarrow>
        (case rdd_zip images labels of
           Inl e \<Rightarrow> Inl e
         | Inr pairs \<Rightarrow>
             Inr (map (\<lambda>features_label.
                         \<lparr>features = fst features_label, label = snd features_label + 1\<rparr>)
                    pairs)))"

text \<open>The position of the first occurrence of \<open>x\<close>, as a plain number (for statements).\<close>

definition first_position :: "'a list \<Rightarrow> 'a \<Rightarrow> nat" where
  "first_position xs x = length (takeWhile (\<lambda>y. y \<noteq> x) xs)"


section \<open>nano: the inference optimizer (optimizer.py)\<close>

subsection \<open>Acceleration options and the registered methods\<close>

text \<open>
  Modelled from the spec: the class \<open>AccelerationOption\<close> (module
  \<open>bigdl.nano.utils.inference.common.utils\<close>) is not among the sources. An option object is
  the record of the keyword flags its constructor is given where the methods are
  registered; a flag that is not given is off and \<open>method\<close> is absent. What
  \<open>get_precision\<close> and \<open>get_accelerator\<close> answer for an option is a parameter.
\<close>

record AccelerationOption =
  inc :: bool
  openvino :: bool
  pot :: bool
  onnxruntime :: bool
  opt_method :: "string option"

definition TFAccelerationOption :: AccelerationOption where
  "TFAccelerationOption =
     \<lparr>inc = False, openvino = False, pot = False, onnxruntime = False, opt_method = None\<rparr>"

text \<open>The dictionary of registered methods, in the order of its literal.\<close>

definition ALL_INFERENCE_ACCELERATION_METHOD :: "(string \<times> AccelerationOption) list" where
  "ALL_INFERENCE_ACCELERATION_METHOD =
     [(''original'', TFAccelerationOption),
      (''int8'', TFAccelerationOption\<lparr>inc := True\<rparr>),
      (''openvino_fp32'', TFAccelerationOption\<lparr>openvino := True\<rparr>),
      (''openvino_int8'', TFAccelerationOption\<lparr>openvino := True, pot := True\<rparr>),
      (''onnxruntime_fp32'', TFAccelerationOption\<lparr>onnxruntime := True\<rparr>),
      (''onnxruntime_int8_qlinear'',
         TFAccelerationOption\<lparr>onnxruntime := True, inc := True, opt_method := Some ''qlinear''\<rparr>),
      (''onnxruntime_int8_integer'',
         TFAccelerationOption\<lparr>onnxruntime := True, inc := True, opt_method := Some ''integer''\<rparr>)]"

subsection \<open>The result map\<close>

text \<open>
  \<open>result_map\<close> is a dictionary from method names to dictionaries; the inner dictionary
  has the keys \<open>status\<close>, \<open>latency\<close>, \<open>accuracy\<close> and \<open>model\<close>, whose values are strings,
  floats, \<open>None\<close> or a model object.
\<close>

datatype 'm pyval = PyNone | PyStr string | PyFloat real | PyModel 'm

type_synonym 'm entry = "string \<rightharpoonup> 'm pyval"

subsection \<open>The frameworks around the optimizer\<close>

text \<open>
  Everything the optimizer calls outside its own file is a parameter: the type tests, the
  wrapping into a NanoModel, the dependency check, batching and the first input sample,
  the timed baseline forward pass (whether it raised, and the seconds it took), the
  tracing and quantizing converters, and the latency and accuracy helpers. A call that may
  raise returns a \<open>result\<close>. \<open>'m\<close> are model objects, \<open>'d\<close> tensors and datasets, \<open>'k\<close>
  metric objects.
\<close>

record ('m, 'd, 'k) env =
  is_keras_model :: "'m \<Rightarrow> bool"
  is_nano_model :: "'m \<Rightarrow> bool"
  NanoModel :: "'m \<Rightarrow> 'm"
  is_dataset :: "'d \<Rightarrow> bool"
  available_acceleration_combination ::
    "string list option \<Rightarrow> string list option \<Rightarrow> (string \<times> AccelerationOption) list
       \<Rightarrow> (string \<times> bool) list"
  dataset_batch :: "'d \<Rightarrow> int \<Rightarrow> 'd"
  getenv_OMP_NUM_THREADS :: "string option"
  int_of_str :: "string \<Rightarrow> int result"
  first_input_sample :: "'d \<Rightarrow> int \<Rightarrow> 'd result"
  baseline_forward :: "'m \<Rightarrow> 'd \<Rightarrow> error option \<times> real"
  get_precision :: "AccelerationOption \<Rightarrow> string"
  get_accelerator :: "AccelerationOption \<Rightarrow> string option"
  trace :: "'m \<Rightarrow> string option \<Rightarrow> int option \<Rightarrow> bool \<Rightarrow> 'm result"
  quantize ::
    "'m \<Rightarrow> string \<Rightarrow> string option \<Rightarrow> 'd \<Rightarrow> 'd option \<Rightarrow> string option \<Rightarrow> int option
       \<Rightarrow> int \<Rightarrow> bool \<Rightarrow> 'm result"
  throughput_calculate_helper :: "int \<Rightarrow> real \<Rightarrow> 'm \<Rightarrow> 'd \<Rightarrow> (real \<times> bool) result"
  accuracy_calculate_helper :: "'m \<Rightarrow> 'k option \<Rightarrow> 'd option \<Rightarrow> real result"
  format_optimize_result :: "(string \<rightharpoonup> 'm entry) \<Rightarrow> bool \<Rightarrow> string"
  time_cost_str :: string

subsection \<open>The arguments of optimize\<close>

record ('m, 'd, 'k) optimize_args =
  arg_model :: 'm
  arg_x :: 'd
  arg_y :: "'d option"
  arg_validation_data :: "'d option"
  arg_batch_size :: int
  arg_metric :: "'k option"
  arg_direction :: string
  arg_thread_num :: "int option"
  arg_logging :: bool
  arg_latency_sample_num :: int
  arg_includes :: "string list option"
  arg_excludes :: "string list option"

text \<open>A call that gives only \<open>model\<close> and \<open>x\<close>: every other argument has its default.\<close>

definition optimize_defaults :: "'m \<Rightarrow> 'd \<Rightarrow> ('m, 'd, 'k) optimize_args" where
  "optimize_defaults model_v x_v =
     \<lparr>arg_model = model_v, arg_x = x_v, arg_y = None, arg_validation_data = None,
      arg_batch_size = 1, arg_metric = None, arg_direction = ''max'',
      arg_thread_num = None, arg_logging = False, arg_latency_sample_num = 100,
      arg_includes = None, arg_excludes = None\<rparr>"

subsection \<open>TFAccelerationOption.optimize\<close>

definition TFAccelerationOption_optimize ::
  "('m, 'd, 'k) env \<Rightarrow> AccelerationOption \<Rightarrow> 'm \<Rightarrow> 'd \<Rightarrow> 'd option \<Rightarrow> int option \<Rightarrow> bool
     \<Rightarrow> int \<Rightarrow> 'm result" where
  "TFAccelerationOption_optimize E self_opt model_v x_v y_v thread_num logging
       sample_size_for_pot =
     (let accelerator = get_accelerator E self_opt in
      if get_precision E self_opt = ''fp32'' then
        (if accelerator = None then Inr model_v
         else trace E model_v accelerator thread_num logging)
      else
        (let ort_method = opt_method self_opt in
         quantize E model_v (get_precision E self_opt) accelerator x_v y_v ort_method
           thread_num sample_size_for_pot logging))"

subsection \<open>The locals of optimize that the loop reads\<close>

record ('m, 'd) locals =
  l_model :: 'm
  l_thread_num :: "int option"
  l_input_sample :: 'd
  l_baseline_time :: real
  l_sample_size_for_pot :: int
  l_batched_validation_data :: "'d option"

text \<open>The external calls of a run, in the order they are made, with the method at work.\<close>

datatype call =
    Call_optimize string int
  | Call_throughput_calculate_helper string int
  | Call_accuracy_calculate_helper string

record 'm loop_state =
  result_map :: "string \<rightharpoonup> 'm entry"
  calculate_accuracy :: bool
  calls :: "call list"

subsection \<open>One iteration of the loop over the available methods\<close>

text \<open>
  An iteration works on the entry \<open>result_map[method]\<close>, created empty at its start, and on
  the flag \<open>self._calculate_accuracy\<close>. Each stage answers with: the exception that leaves
  \<open>optimize\<close> (if any), the entry, the flag, and the external calls made. The \<open>print\<close>
  statements are left out.
\<close>

type_synonym 'm outcome = "error option \<times> 'm entry \<times> bool \<times> call list"

text \<open>Lines 241 to 263: the accuracy and the model of a method that was measured.\<close>

definition accuracy_stage ::
  "('m, 'd, 'k) env \<Rightarrow> ('m, 'd, 'k) optimize_args \<Rightarrow> ('m, 'd) locals \<Rightarrow> string \<Rightarrow> string \<Rightarrow> 'm
     \<Rightarrow> 'm entry \<Rightarrow> bool \<Rightarrow> 'm outcome" where
  "accuracy_stage E A L method_v precision acce_model ent calc =
     (if calc then
        (if precision = ''fp32'' \<and> method_v \<noteq> ''original'' then
           (None, ent(''accuracy'' \<mapsto> PyStr ''not recomputed'', ''model'' \<mapsto> PyModel acce_model),
            calc, [])
         else if method_v = ''original'' then
           (case accuracy_calculate_helper E acce_model (arg_metric A)
                   (l_batched_validation_data L) of
              Inl e \<Rightarrow>
                (None, ent(''model'' \<mapsto> PyModel acce_model), False,
                 [Call_accuracy_calculate_helper method_v])
            | Inr acc \<Rightarrow>
                (None, ent(''accuracy'' \<mapsto> PyFloat acc, ''model'' \<mapsto> PyModel acce_model), calc,
                 [Call_accuracy_calculate_helper method_v]))
         else
           (case accuracy_calculate_helper E acce_model (arg_metric A)
                   (l_batched_validation_data L) of
              Inl e \<Rightarrow> (Some e, ent, calc, [Call_accuracy_calculate_helper method_v])
            | Inr acc \<Rightarrow>
                (None, ent(''accuracy'' \<mapsto> PyFloat acc, ''model'' \<mapsto> PyModel acce_model), calc,
                 [Call_accuracy_calculate_helper method_v])))
      else
        (None, ent(''accuracy'' \<mapsto> PyNone, ''model'' \<mapsto> PyModel acce_model), calc, []))"

text \<open>Lines 224 to 239: the latency of a converted model, then the accuracy stage.\<close>

definition latency_stage ::
  "('m, 'd, 'k) env \<Rightarrow> ('m, 'd, 'k) optimize_args \<Rightarrow> ('m, 'd) locals \<Rightarrow> string \<Rightarrow> string \<Rightarrow> 'm
     \<Rightarrow> bool \<Rightarrow> 'm outcome" where
  "latency_stage E A L method_v precision acce_model calc =
     (let ent = [''status'' \<mapsto> PyStr ''successful''] in
      case throughput_calculate_helper E (arg_latency_sample_num A) (l_baseline_time L)
             acce_model (l_input_sample L) of
        Inl e \<Rightarrow>
          (None, ent(''status'' \<mapsto> PyStr ''fail to forward''), calc,
           [Call_throughput_calculate_helper method_v (arg_latency_sample_num A)])
      | Inr (lat, status) \<Rightarrow>
          (let ent = ent(''latency'' \<mapsto> PyFloat lat) in
           if status = False \<and> method_v \<noteq> ''original'' then
             (None, ent(''status'' \<mapsto> PyStr ''early stopped''), calc,
              [Call_throughput_calculate_helper method_v (arg_latency_sample_num A)])
           else
             (case accuracy_stage E A L method_v precision acce_model ent calc of
                (raised, ent', calc', cs) \<Rightarrow>
                  (raised, ent', calc',
                   Call_throughput_calculate_helper method_v (arg_latency_sample_num A) # cs))))"

text \<open>Lines 203 to 222: the dependency test, the option of the method, the conversion.\<close>

definition attempt ::
  "('m, 'd, 'k) env \<Rightarrow> ('m, 'd, 'k) optimize_args \<Rightarrow> ('m, 'd) locals \<Rightarrow> string \<Rightarrow> bool \<Rightarrow> bool
     \<Rightarrow> 'm outcome" where
  "attempt E A L method_v available calc =
     (if available = False then
        (None, [''status'' \<mapsto> PyStr ''lack dependency''], calc, [])
      else
        (case map_of ALL_INFERENCE_ACCELERATION_METHOD method_v of
           None \<Rightarrow> (Some (KeyError method_v), Map.empty, calc, [])
         | Some opt \<Rightarrow>
             (let precision = get_precision E opt in
              case TFAccelerationOption_optimize E opt (l_model L) (arg_x A) (arg_y A)
                     (l_thread_num L) (arg_logging A) (l_sample_size_for_pot L) of
                Inl e \<Rightarrow>
                  (None, [''status'' \<mapsto> PyStr ''fail to convert''], calc,
                   [Call_optimize method_v (l_sample_size_for_pot L)])
              | Inr acce_model \<Rightarrow>
                  (case latency_stage E A L method_v precision acce_model calc of
                     (raised, ent, calc', cs) \<Rightarrow>
                       (raised, ent, calc',
                        Call_optimize method_v (l_sample_size_for_pot L) # cs)))))"

subsection \<open>The loop\<close>

text \<open>
  The loop goes through the items of \<open>available_dict\<close> in their order. An exception that
  no clause catches ends it at once.
\<close>

fun optimize_loop ::
  "('m, 'd, 'k) env \<Rightarrow> ('m, 'd, 'k) optimize_args \<Rightarrow> ('m, 'd) locals \<Rightarrow> (string \<times> bool) list
     \<Rightarrow> 'm loop_state \<Rightarrow> error option \<times> 'm loop_state" where
  "optimize_loop E A L [] st = (None, st)"
| "optimize_loop E A L ((method_v, available) # rest) st =
     (case attempt E A L method_v available (calculate_accuracy st) of
        (raised, ent, calc, cs) \<Rightarrow>
          (let st' = \<lparr>result_map = (result_map st)(method_v \<mapsto> ent),
                      calculate_accuracy = calc,
                      calls = calls st @ cs\<rparr> in
           case raised of
             Some e \<Rightarrow> (Some e, st')
           | None \<Rightarrow> optimize_loop E A L rest st'))"

subsection \<open>optimize\<close>

text \<open>The attributes of the optimizer object that \<open>optimize\<close> assigns; \<open>None\<close>: not assigned.\<close>

record 'm InferenceOptimizer =
  self_direction :: "string option"
  self_calculate_accuracy :: "bool option"
  optimized_model_dict :: "(string \<rightharpoonup> 'm entry) option"
  self_optimize_result :: "string option"

text \<open>Lines 138 to 143: the three argument checks, in their order.\<close>

definition check_arguments ::
  "('m, 'd, 'k) env \<Rightarrow> ('m, 'd, 'k) optimize_args \<Rightarrow> error option" where
  "check_arguments E A =
     (case invalidInputError (is_keras_model E (arg_model A))
             ''model should be a Keras Model.'' of
        Some e \<Rightarrow> Some e
      | None \<Rightarrow>
     (case invalidInputError (arg_direction A \<in> {''min'', ''max''})
             ''Only support direction 'min', 'max'.'' of
        Some e \<Rightarrow> Some e
      | None \<Rightarrow>
          invalidInputError (arg_y A \<noteq> None \<or> is_dataset E (arg_x A))
            (''y can be omitted only when x is a Dataset which returns ''
               @ replicate 30 CHR '' '' @ ''tuples of (inputs, targets)'')))"

text \<open>Lines 150 to 153: the methods to go through, with whether their dependency is met.\<close>

definition available_dict ::
  "('m, 'd, 'k) env \<Rightarrow> ('m, 'd, 'k) optimize_args \<Rightarrow> (string \<times> bool) list" where
  "available_dict E A =
     available_acceleration_combination E (arg_excludes A) (arg_includes A)
       ALL_INFERENCE_ACCELERATION_METHOD"

text \<open>Lines 157 to 163: whether accuracy is calculated.\<close>

definition initial_calculate_accuracy :: "('m, 'd, 'k) optimize_args \<Rightarrow> bool" where
  "initial_calculate_accuracy A =
     (if arg_validation_data A = None \<or> arg_metric A = None then False else True)"

text \<open>
  Lines 145 to 198: the model as a NanoModel, the batched validation data, the thread
  number, the input sample, the timed baseline forward pass and the sample size for POT.
\<close>

definition optimize_locals ::
  "('m, 'd, 'k) env \<Rightarrow> ('m, 'd, 'k) optimize_args \<Rightarrow> ('m, 'd) locals result" where
  "optimize_locals E A =
     (let model_v = (if \<not> is_nano_model E (arg_model A) then NanoModel E (arg_model A)
                     else arg_model A);
          batched_validation_data =
            (case arg_validation_data A of
               None \<Rightarrow> None
             | Some v \<Rightarrow>
                 (if arg_metric A = None then None
                  else Some (dataset_batch E v (arg_batch_size A))))
      in
      case (case getenv_OMP_NUM_THREADS E of
              None \<Rightarrow> Inr None
            | Some s \<Rightarrow> (case int_of_str E s of Inl e \<Rightarrow> Inl e | Inr n \<Rightarrow> Inr (Some n))) of
        Inl e \<Rightarrow> Inl e
      | Inr default_threads \<Rightarrow>
          (let thread_num = (case arg_thread_num A of
                               None \<Rightarrow> default_threads
                             | Some n \<Rightarrow> Some n)
           in
           case first_input_sample E (arg_x A) (arg_batch_size A) of
             Inl e \<Rightarrow> Inl e
           | Inr input_sample \<Rightarrow>
               (case baseline_forward E model_v input_sample of
                  (forward_raised, baseline_time) \<Rightarrow>
                    (case (case forward_raised of
                             None \<Rightarrow> None
                           | Some e \<Rightarrow>
                               invalidInputError False
                                 ''x is incompatible with your model input.'') of
                       Some e \<Rightarrow> Inl e
                     | None \<Rightarrow>
                         (let sample_size_for_pot =
                                (if baseline_time > 0.1 then 15 else 100)
                          in
                          Inr \<lparr>l_model = model_v, l_thread_num = thread_num,
                               l_input_sample = input_sample,
                               l_baseline_time = baseline_time,
                               l_sample_size_for_pot = sample_size_for_pot,
                               l_batched_validation_data = batched_validation_data\<rparr>)))))"

text \<open>The state the loop starts in: an empty \<open>result_map\<close>, no call made yet.\<close>

definition initial_state :: "('m, 'd, 'k) optimize_args \<Rightarrow> 'm loop_state" where
  "initial_state A =
     \<lparr>result_map = Map.empty, calculate_accuracy = initial_calculate_accuracy A, calls = []\<rparr>"

text \<open>
  A call of \<open>optimize\<close> answers with the exception it raises (if any), the optimizer
  object as it is left, and the external calls its loop made.
\<close>

definition optimize ::
  "('m, 'd, 'k) env \<Rightarrow> 'm InferenceOptimizer \<Rightarrow> ('m, 'd, 'k) optimize_args
     \<Rightarrow> error option \<times> 'm InferenceOptimizer \<times> call list" where
  "optimize E self A =
     (case check_arguments E A of
        Some e \<Rightarrow> (Some e, self, [])
      | None \<Rightarrow>
          (let self1 = self\<lparr>self_direction := Some (arg_direction A),
                            self_calculate_accuracy := Some (initial_calculate_accuracy A)\<rparr>
           in
           case optimize_locals E A of
             Inl e \<Rightarrow> (Some e, self1, [])
           | Inr L \<Rightarrow>
               (case optimize_loop E A L (available_dict E A) (initial_state A) of
                  (Some e, st) \<Rightarrow>
                    (Some e,
                     self1\<lparr>self_calculate_accuracy := Some (calculate_accuracy st)\<rparr>,
                     calls st)
                | (None, st) \<Rightarrow>
                    (None,
                     self1\<lparr>self_calculate_accuracy := Some (calculate_accuracy st),
                           optimized_model_dict := Some (result_map st),
                           self_optimize_result :=
                             Some (format_optimize_result E (result_map st)
                                     (calculate_accuracy st) @ time_cost_str E)\<rparr>,
                     calls st))))"

text \<open>The three parts of what a call answers.\<close>

definition raised_by :: "error option \<times> 'm InferenceOptimizer \<times> call list \<Rightarrow> error option" where
  "raised_by run = fst run"

definition object_after ::
  "error option \<times> 'm InferenceOptimizer \<times> call list \<Rightarrow> 'm InferenceOptimizer" where
  "object_after run = fst (snd run)"

definition calls_of :: "error option \<times> 'm InferenceOptimizer \<times> call list \<Rightarrow> call list" where
  "calls_of run = snd (snd run)"

text \<open>What the optimizer object holds for one key of one method's entry after a call.\<close>

definition recorded :: "'m InferenceOptimizer \<Rightarrow> string \<Rightarrow> string \<Rightarrow> 'm pyval option" where
  "recorded self method_v key =
     (case optimized_model_dict self of
        None \<Rightarrow> None
      | Some rm \<Rightarrow> (case rm method_v of None \<Rightarrow> None | Some ent \<Rightarrow> ent key))"

text \<open>The methods whose conversion was called, in the order of the calls.\<close>

fun conversions :: "call list \<Rightarrow> string list" where
  "conversions [] = []"
| "conversions (Call_optimize m s # cs) = m # conversions cs"
| "conversions (c # cs) = conversions cs"

text \<open>
  Modelled from the spec: \<open>available_acceleration_combination\<close> (module
  \<open>bigdl.nano.utils.inference.common.checker\<close>) is not among the sources. It goes through
  the registered methods in their order and keeps those selected by includes and
  excludes: with no includes every method is included, \<open>original\<close> is always included and
  is ignored in the excludes. Each method kept is paired with whether its dependency is
  met, which is the parameter \<open>dependency_met\<close>.
\<close>

definition selected :: "string list option \<Rightarrow> string list option \<Rightarrow> string \<Rightarrow> bool" where
  "selected excludes includes method_v =
     ((case includes of None \<Rightarrow> True | Some incl \<Rightarrow> method_v \<in> set incl \<or> method_v = ''original'')
      \<and> (case excludes of None \<Rightarrow> True
          | Some excl \<Rightarrow> \<not> (method_v \<in> set excl \<and> method_v \<noteq> ''original'')))"

definition spec_available_acceleration_combination ::
  "(AccelerationOption \<Rightarrow> bool) \<Rightarrow> string list option \<Rightarrow> string list option
     \<Rightarrow> (string \<times> AccelerationOption) list \<Rightarrow> (string \<times> bool) list" where
  "spec_available_acceleration_combination dependency_met excludes includes full_methods =
     map (\<lambda>(m, opt). (m, dependency_met opt))
       (filter (\<lambda>(m, opt). selected excludes includes m) full_methods)"

subsection \<open>An example run\<close>

text \<open>
  A small world to run the optimizer in. Models are named by strings, data and metrics by
  numbers. onnxruntime is not installed; tracing to OpenVINO works; quantizing works with
  an accelerator only; the metric numbered 0 raises when it is updated; the forward pass
  fails on the data numbered 0.
\<close>

definition example_env :: "(string, nat, nat) env" where
  "example_env =
     \<lparr>is_keras_model = (\<lambda>m. m \<noteq> ''not a model''),
      is_nano_model = (\<lambda>m. False),
      NanoModel = (\<lambda>m. m),
      is_dataset = (\<lambda>d. False),
      available_acceleration_combination =
        spec_available_acceleration_combination (\<lambda>opt. \<not> onnxruntime opt),
      dataset_batch = (\<lambda>d n. d),
      getenv_OMP_NUM_THREADS = None,
      int_of_str = (\<lambda>s. Inl (ValueError s)),
      first_input_sample = (\<lambda>d n. Inr d),
      baseline_forward =
        (\<lambda>m d. (if d = 0 then Some (Exception ''shape mismatch'') else None, 0.2)),
      get_precision = (\<lambda>opt. if inc opt \<or> pot opt then ''int8'' else ''fp32''),
      get_accelerator =
        (\<lambda>opt. if onnxruntime opt then Some ''onnxruntime''
               else if openvino opt then Some ''openvino'' else None),
      trace = (\<lambda>m acc t lg. Inr (''traced '' @ m)),
      quantize =
        (\<lambda>m prec acc x_v y_v meth t n lg.
           if acc = None then Inl (Exception ''no tuning result'')
           else Inr (''quantized '' @ m)),
      throughput_calculate_helper =
        (\<lambda>n b m d. if m = ''keras'' then Inr (12, False)
                   else if m = ''traced keras'' then Inr (7, True)
                   else Inr (30, False)),
      accuracy_calculate_helper =
        (\<lambda>m k v. if k = Some 0 then Inl (Exception ''metric failed'') else Inr 0.9),
      format_optimize_result = (\<lambda>rm c. ''report''),
      time_cost_str = ''Optimization cost 1.0s in total.''\<rparr>"

definition example_args :: "(string, nat, nat) optimize_args" where
  "example_args =
     (optimize_defaults ''keras'' 1)
       \<lparr>arg_y := Some 1,
        arg_includes := Some [''openvino_fp32'', ''int8'', ''openvino_int8'', ''onnxruntime_fp32'']\<rparr>"

text \<open>The same call with validation data and a metric: the metric 1 works, the metric 0 raises.\<close>

definition example_args_metric :: "nat \<Rightarrow> (string, nat, nat) optimize_args" where
  "example_args_metric k = example_args\<lparr>arg_validation_data := Some 5, arg_metric := Some k\<rparr>"

definition fresh_optimizer :: "string InferenceOptimizer" where
  "fresh_optimizer =
     \<lparr>self_direction = None, self_calculate_accuracy = None, optimized_model_dict = None,
      self_optimize_result = None\<rparr>"

definition example_locals :: "(string, nat) locals" where
  "example_locals =
     \<lparr>l_model = ''keras'', l_thread_num = None, l_input_sample = 1, l_baseline_time = 0.2,
      l_sample_size_for_pot = 15, l_batched_validation_data = None\<rparr>"

definition example_os :: "string os_env" where
  "example_os =
     \<lparr>listdir = (\<lambda>path. if path = ''data'' then Inr [''dog'', ''cat'']
                        else if path = ''data/cat'' then Inr [''1.jpg'', ''2.jpg'']
                        else if path = ''data/dog'' then Inr [''3.jpg'']
                        else Inl (Exception ''Not a directory'')),
      join = (\<lambda>a b. a @ ''/'' @ b),
      cv2_imread = (\<lambda>path flag. path),
      cv2_resize = (\<lambda>img size. img),
      ndarray_and = (\<lambda>img mask. img),
      ndarray_div = (\<lambda>img d. img)\<rparr>"


section \<open>Facts about the optimizer\<close>

subsection \<open>One iteration\<close>

lemma accuracy_stage_shape:
  assumes "accuracy_stage E A L m p acce ent calc = (r, ent', calc', cs)"
  shows "(calc' \<longrightarrow> calc)"
    and "ent' ''status'' = ent ''status''"
    and "ent' ''latency'' = ent ''latency''"
    and "r = None \<Longrightarrow> ent' ''model'' = Some (PyModel acce)"
    and "conversions cs = []"
    and "\<And>m' s. Call_optimize m' s \<notin> set cs"
    and "\<And>m' n. Call_throughput_calculate_helper m' n \<notin> set cs"
    and "m = ''original'' \<Longrightarrow> r = None"
  using assms
  by (auto simp: accuracy_stage_def split: if_splits sum.splits)

lemma accuracy_stage_accuracy:
  assumes "accuracy_stage E A L m p acce ent calc = (r, ent', calc', cs)"
    and "ent ''accuracy'' = None"
  shows "ent' ''accuracy'' = Some (PyFloat v) \<Longrightarrow> calc"
    and "r = None \<Longrightarrow> calc' \<Longrightarrow> m = ''original'' \<or> p \<noteq> ''fp32'' \<Longrightarrow> \<exists>v. ent' ''accuracy'' = Some (PyFloat v)"
    and "r = None \<Longrightarrow> \<not> calc \<Longrightarrow> ent' ''accuracy'' = Some PyNone"
    and "r = None \<Longrightarrow> calc \<Longrightarrow> m \<noteq> ''original'' \<Longrightarrow> p = ''fp32'' \<Longrightarrow> ent' ''accuracy'' = Some (PyStr ''not recomputed'')"
    and "Call_accuracy_calculate_helper m' \<in> set cs \<Longrightarrow> calc \<and> m' = m"
  using assms
  by (auto simp: accuracy_stage_def split: if_splits sum.splits)


lemma latency_stage_shape:
  assumes "latency_stage E A L m p acce calc = (r, ent, calc', cs)"
  shows "(calc' \<longrightarrow> calc)"
    and "r = None \<Longrightarrow> ent ''status'' \<in> {Some (PyStr ''successful''), Some (PyStr ''early stopped''),
           Some (PyStr ''fail to forward'')}"
    and "r = None \<Longrightarrow> ent ''model'' \<noteq> None \<Longrightarrow> ent ''status'' = Some (PyStr ''successful'')"
    and "conversions cs = []"
    and "\<And>m' s. Call_optimize m' s \<notin> set cs"
    and "m = ''original'' \<Longrightarrow> r = None \<and> ent ''status'' \<noteq> Some (PyStr ''early stopped'')"
  using assms
  by (auto simp: latency_stage_def Let_def split: if_splits sum.splits prod.splits
      dest: accuracy_stage_shape)

lemma latency_stage_measured:
  assumes "latency_stage E A L m p acce calc = (r, ent, calc', cs)"
    and "throughput_calculate_helper E (arg_latency_sample_num A) (l_baseline_time L) acce
           (l_input_sample L) = Inr (lat, fl)"
  shows "ent ''latency'' = Some (PyFloat lat)"
    and "Call_throughput_calculate_helper m (arg_latency_sample_num A) \<in> set cs"
    and "m = ''original'' \<Longrightarrow> ent ''status'' = Some (PyStr ''successful'') \<and> ent ''model'' = Some (PyModel acce)"
  using assms
  by (auto simp: latency_stage_def Let_def split: if_splits sum.splits prod.splits
      dest: accuracy_stage_shape)

lemma latency_stage_accuracy:
  assumes "latency_stage E A L m p acce calc = (r, ent, calc', cs)"
  shows "ent ''accuracy'' = Some (PyFloat v) \<Longrightarrow> calc"
    and "r = None \<Longrightarrow> calc' \<Longrightarrow> ent ''status'' = Some (PyStr ''successful'') \<Longrightarrow> m = ''original'' \<or> p \<noteq> ''fp32'' \<Longrightarrow> \<exists>v. ent ''accuracy'' = Some (PyFloat v)"
    and "r = None \<Longrightarrow> \<not> calc \<Longrightarrow> ent ''status'' = Some (PyStr ''successful'') \<Longrightarrow> ent ''accuracy'' = Some PyNone"
    and "r = None \<Longrightarrow> calc \<Longrightarrow> ent ''status'' = Some (PyStr ''successful'') \<Longrightarrow> m \<noteq> ''original'' \<Longrightarrow> p = ''fp32'' \<Longrightarrow> ent ''accuracy'' = Some (PyStr ''not recomputed'')"
    and "Call_accuracy_calculate_helper m' \<in> set cs \<Longrightarrow> calc \<and> m' = m"
  using assms
  by (auto simp: latency_stage_def Let_def split: if_splits sum.splits prod.splits
      dest: accuracy_stage_accuracy accuracy_stage_shape)


lemma attempt_shape:
  assumes "attempt E A L m a calc = (r, ent, calc', cs)"
  shows "(calc' \<longrightarrow> calc)"
    and "r = None \<Longrightarrow> ent ''status'' \<in> {Some (PyStr ''lack dependency''), Some (PyStr ''fail to convert''),
           Some (PyStr ''successful''), Some (PyStr ''early stopped''),
           Some (PyStr ''fail to forward'')}"
    and "r = None \<Longrightarrow> ent ''model'' \<noteq> None \<Longrightarrow> ent ''status'' = Some (PyStr ''successful'')"
    and "m = ''original'' \<Longrightarrow> r = None \<and> ent ''status'' \<noteq> Some (PyStr ''early stopped'')"
  using assms
  by (auto simp: attempt_def Let_def ALL_INFERENCE_ACCELERATION_METHOD_def
      split: if_splits sum.splits prod.splits option.splits
      dest: latency_stage_shape)

lemma attempt_calls:
  assumes "attempt E A L m a calc = (r, ent, calc', cs)"
  shows "conversions cs = (if a \<and> map_of ALL_INFERENCE_ACCELERATION_METHOD m \<noteq> None then [m] else [])"
    and "Call_optimize m' s \<in> set cs \<Longrightarrow> m' = m \<and> s = l_sample_size_for_pot L"
    and "Call_accuracy_calculate_helper m' \<in> set cs \<Longrightarrow> calc \<and> m' = m"
  using assms
  by (auto simp: attempt_def Let_def
      split: if_splits sum.splits prod.splits option.splits
      dest: latency_stage_shape latency_stage_accuracy)

lemma attempt_convert_fails:
  assumes "map_of ALL_INFERENCE_ACCELERATION_METHOD m = Some opt"
    and "TFAccelerationOption_optimize E opt (l_model L) (arg_x A) (arg_y A)
           (l_thread_num L) (arg_logging A) (l_sample_size_for_pot L) = Inl e"
  shows "attempt E A L m True calc =
           (None, [''status'' \<mapsto> PyStr ''fail to convert''], calc,
            [Call_optimize m (l_sample_size_for_pot L)])"
  using assms by (simp add: attempt_def)

lemma attempt_measured:
  assumes "attempt E A L m True calc = (r, ent, calc', cs)"
    and "map_of ALL_INFERENCE_ACCELERATION_METHOD m = Some opt"
    and "TFAccelerationOption_optimize E opt (l_model L) (arg_x A) (arg_y A)
           (l_thread_num L) (arg_logging A) (l_sample_size_for_pot L) = Inr acce"
    and "throughput_calculate_helper E (arg_latency_sample_num A) (l_baseline_time L) acce
           (l_input_sample L) = Inr (lat, fl)"
  shows "ent ''latency'' = Some (PyFloat lat)"
    and "Call_throughput_calculate_helper m (arg_latency_sample_num A) \<in> set cs"
    and "m = ''original'' \<Longrightarrow> ent ''status'' = Some (PyStr ''successful'') \<and> ent ''model'' = Some (PyModel acce)"
  using assms
  by (auto simp: attempt_def Let_def split: prod.splits dest: latency_stage_measured)


subsection \<open>The loop\<close>


lemma optimize_loop_append:
  "optimize_loop E A L (xs @ ys) st =
     (case optimize_loop E A L xs st of
        (None, st1) \<Rightarrow> optimize_loop E A L ys st1
      | (Some e, st1) \<Rightarrow> (Some e, st1))"
  by (induction xs arbitrary: st) (auto simp: Let_def split: prod.splits option.splits)

lemma optimize_loop_step:
  assumes "optimize_loop E A L ((m, a) # av) st = (r, st')"
  obtains ro ent calc' cs where
    "attempt E A L m a (calculate_accuracy st) = (ro, ent, calc', cs)"
    "ro = None \<Longrightarrow>
       optimize_loop E A L av
         \<lparr>result_map = (result_map st)(m \<mapsto> ent), calculate_accuracy = calc',
          calls = calls st @ cs\<rparr> = (r, st')"
    "ro \<noteq> None \<Longrightarrow>
       r = ro \<and> st' = \<lparr>result_map = (result_map st)(m \<mapsto> ent), calculate_accuracy = calc',
                        calls = calls st @ cs\<rparr>"
proof -
  obtain ro ent calc' cs where att:
    "attempt E A L m a (calculate_accuracy st) = (ro, ent, calc', cs)"
    by (metis prod_cases4)
  show thesis
  proof (rule that[OF att])
    assume "ro = None"
    then show "optimize_loop E A L av
         \<lparr>result_map = (result_map st)(m \<mapsto> ent), calculate_accuracy = calc',
          calls = calls st @ cs\<rparr> = (r, st')"
      using assms att by (simp add: Let_def)
  next
    assume "ro \<noteq> None"
    then show "r = ro \<and> st' = \<lparr>result_map = (result_map st)(m \<mapsto> ent), calculate_accuracy = calc',
                        calls = calls st @ cs\<rparr>"
      using assms att by (auto simp: Let_def)
  qed
qed

lemma optimize_loop_frame:
  "optimize_loop E A L av st = (r, st') \<Longrightarrow> m \<notin> fst ` set av
     \<Longrightarrow> result_map st' m = result_map st m"
proof (induction av arbitrary: st)
  case Nil
  then show ?case by simp
next
  case (Cons p av)
  obtain m0 a where p: "p = (m0, a)" by (cases p)
  from Cons.prems(1)[unfolded p] show ?case
  proof (rule optimize_loop_step)
    fix ro ent calc' cs
    assume att: "attempt E A L m0 a (calculate_accuracy st) = (ro, ent, calc', cs)"
      and go: "ro = None \<Longrightarrow> optimize_loop E A L av
         \<lparr>result_map = (result_map st)(m0 \<mapsto> ent), calculate_accuracy = calc',
          calls = calls st @ cs\<rparr> = (r, st')"
      and stop: "ro \<noteq> None \<Longrightarrow> r = ro \<and> st' = \<lparr>result_map = (result_map st)(m0 \<mapsto> ent),
          calculate_accuracy = calc', calls = calls st @ cs\<rparr>"
    have ne: "m \<noteq> m0" and rest: "m \<notin> fst ` set av" using Cons.prems(2) p by auto
    show ?thesis
    proof (cases "ro = None")
      case True
      from Cons.IH[OF go[OF True] rest] ne show ?thesis by simp
    next
      case False
      from stop[OF False] ne show ?thesis by simp
    qed
  qed
qed

lemma optimize_loop_flag:
  "optimize_loop E A L av st = (r, st') \<Longrightarrow> calculate_accuracy st'
     \<Longrightarrow> calculate_accuracy st"
proof (induction av arbitrary: st)
  case Nil
  then show ?case by simp
next
  case (Cons p av)
  obtain m0 a where p: "p = (m0, a)" by (cases p)
  from Cons.prems(1)[unfolded p] show ?case
  proof (rule optimize_loop_step)
    fix ro ent calc' cs
    assume att: "attempt E A L m0 a (calculate_accuracy st) = (ro, ent, calc', cs)"
      and go: "ro = None \<Longrightarrow> optimize_loop E A L av
         \<lparr>result_map = (result_map st)(m0 \<mapsto> ent), calculate_accuracy = calc',
          calls = calls st @ cs\<rparr> = (r, st')"
      and stop: "ro \<noteq> None \<Longrightarrow> r = ro \<and> st' = \<lparr>result_map = (result_map st)(m0 \<mapsto> ent),
          calculate_accuracy = calc', calls = calls st @ cs\<rparr>"
    have "calc'"
    proof (cases "ro = None")
      case True
      from Cons.IH[OF go[OF True] Cons.prems(2)] show ?thesis by simp
    next
      case False
      from stop[OF False] Cons.prems(2) show ?thesis by simp
    qed
    then show ?thesis using attempt_shape(1)[OF att] by simp
  qed
qed

lemma optimize_loop_calls_mono:
  "optimize_loop E A L av st = (r, st') \<Longrightarrow> set (calls st) \<subseteq> set (calls st')"
proof (induction av arbitrary: st)
  case Nil
  then show ?case by simp
next
  case (Cons p av)
  obtain m0 a where p: "p = (m0, a)" by (cases p)
  from Cons.prems(1)[unfolded p] show ?case
  proof (rule optimize_loop_step)
    fix ro ent calc' cs
    assume go: "ro = None \<Longrightarrow> optimize_loop E A L av
         \<lparr>result_map = (result_map st)(m0 \<mapsto> ent), calculate_accuracy = calc',
          calls = calls st @ cs\<rparr> = (r, st')"
      and stop: "ro \<noteq> None \<Longrightarrow> r = ro \<and> st' = \<lparr>result_map = (result_map st)(m0 \<mapsto> ent),
          calculate_accuracy = calc', calls = calls st @ cs\<rparr>"
    show ?thesis
    proof (cases "ro = None")
      case True
      from Cons.IH[OF go[OF True]] show ?thesis by simp
    next
      case False
      from stop[OF False] show ?thesis by simp
    qed
  qed
qed

lemma optimize_loop_dom:
  "optimize_loop E A L av st = (None, st')
     \<Longrightarrow> dom (result_map st') = dom (result_map st) \<union> fst ` set av"
proof (induction av arbitrary: st)
  case Nil
  then show ?case by simp
next
  case (Cons p av)
  obtain m0 a where p: "p = (m0, a)" by (cases p)
  from Cons.prems(1)[unfolded p] show ?case
  proof (rule optimize_loop_step)
    fix ro ent calc' cs
    assume att: "attempt E A L m0 a (calculate_accuracy st) = (ro, ent, calc', cs)"
      and go: "ro = None \<Longrightarrow> optimize_loop E A L av
         \<lparr>result_map = (result_map st)(m0 \<mapsto> ent), calculate_accuracy = calc',
          calls = calls st @ cs\<rparr> = (None, st')"
      and stop: "ro \<noteq> None \<Longrightarrow> None = ro \<and> st' = \<lparr>result_map = (result_map st)(m0 \<mapsto> ent),
          calculate_accuracy = calc', calls = calls st @ cs\<rparr>"
    have "ro = None" using stop by (cases "ro = None") simp_all
    from Cons.IH[OF go[OF this]] p show ?thesis by auto
  qed
qed

lemma optimize_loop_provenance:
  assumes "optimize_loop E A L av st = (None, st')"
  shows "(m \<notin> fst ` set av \<and> result_map st' m = result_map st m) \<or>
         (\<exists>a calc ent calc' cs. (m, a) \<in> set av
            \<and> attempt E A L m a calc = (None, ent, calc', cs)
            \<and> result_map st' m = Some ent
            \<and> (calculate_accuracy st' \<longrightarrow> calc')
            \<and> (calc \<longrightarrow> calculate_accuracy st)
            \<and> set cs \<subseteq> set (calls st'))"
  using assms
proof (induction av arbitrary: st)
  case Nil
  then show ?case by simp
next
  case (Cons p av)
  obtain m0 a0 where p: "p = (m0, a0)" by (cases p)
  from Cons.prems[unfolded p] show ?case
  proof (rule optimize_loop_step)
    fix ro ent0 calc0 cs0
    assume att: "attempt E A L m0 a0 (calculate_accuracy st) = (ro, ent0, calc0, cs0)"
      and go: "ro = None \<Longrightarrow> optimize_loop E A L av
         \<lparr>result_map = (result_map st)(m0 \<mapsto> ent0), calculate_accuracy = calc0,
          calls = calls st @ cs0\<rparr> = (None, st')"
      and stop: "ro \<noteq> None \<Longrightarrow> None = ro \<and> st' = \<lparr>result_map = (result_map st)(m0 \<mapsto> ent0),
          calculate_accuracy = calc0, calls = calls st @ cs0\<rparr>"
    let ?st1 = "\<lparr>result_map = (result_map st)(m0 \<mapsto> ent0), calculate_accuracy = calc0,
          calls = calls st @ cs0\<rparr>"
    have ro: "ro = None" using stop by (cases "ro = None") simp_all
    note rest = go[OF ro]
    have flag: "calculate_accuracy st' \<longrightarrow> calc0"
      using optimize_loop_flag[OF rest] by simp
    have mono: "set cs0 \<subseteq> set (calls st')"
      using optimize_loop_calls_mono[OF rest] by simp
    have down: "calc0 \<longrightarrow> calculate_accuracy st"
      using attempt_shape(1)[OF att] .
    from Cons.IH[OF rest]
    consider (same) "m \<notin> fst ` set av" "result_map st' m = result_map ?st1 m"
      | (later) a calc ent calc' cs where "(m, a) \<in> set av"
          "attempt E A L m a calc = (None, ent, calc', cs)"
          "result_map st' m = Some ent" "calculate_accuracy st' \<longrightarrow> calc'"
          "calc \<longrightarrow> calc0" "set cs \<subseteq> set (calls st')"
      by auto
    then show ?thesis
    proof cases
      case same
      show ?thesis
      proof (cases "m = m0")
        case True
        have "(m, a0) \<in> set (p # av)" using True p by simp
        moreover have "attempt E A L m a0 (calculate_accuracy st) = (None, ent0, calc0, cs0)"
          using att ro True by simp
        moreover have "result_map st' m = Some ent0" using same(2) True by simp
        ultimately show ?thesis using flag mono by blast
      next
        case False
        then show ?thesis using same p by simp
      qed
    next
      case later
      have "(m, a) \<in> set (p # av)" using later(1) by simp
      moreover have "calc \<longrightarrow> calculate_accuracy st" using later(5) down by blast
      ultimately show ?thesis using later(2,3,4,6) by blast
    qed
  qed
qed

lemma optimize_loop_entry:
  assumes "optimize_loop E A L av st = (None, st')"
    and "distinct (map fst av)" and "(m, a) \<in> set av"
  shows "\<exists>calc ent calc' cs. attempt E A L m a calc = (None, ent, calc', cs)
            \<and> result_map st' m = Some ent
            \<and> (calculate_accuracy st' \<longrightarrow> calc')
            \<and> (calc \<longrightarrow> calculate_accuracy st)
            \<and> set cs \<subseteq> set (calls st')"
proof -
  from optimize_loop_provenance[OF assms(1), of m]
  consider (same) "m \<notin> fst ` set av"
    | (made) a' calc ent calc' cs where "(m, a') \<in> set av"
        "attempt E A L m a' calc = (None, ent, calc', cs)"
        "result_map st' m = Some ent" "calculate_accuracy st' \<longrightarrow> calc'"
        "calc \<longrightarrow> calculate_accuracy st" "set cs \<subseteq> set (calls st')"
    by auto
  then show ?thesis
  proof cases
    case same
    then show ?thesis using assms(3) by force
  next
    case made
    have "a' = a" by (rule eq_key_imp_eq_value[OF assms(2) made(1) assms(3)])
    then show ?thesis using made by blast
  qed
qed



lemma optimize_loop_call_args:
  assumes "optimize_loop E A L av st = (r, st')"
  shows "Call_optimize m s \<in> set (calls st')
           \<Longrightarrow> Call_optimize m s \<in> set (calls st) \<or> s = l_sample_size_for_pot L"
    and "Call_accuracy_calculate_helper m \<in> set (calls st')
           \<Longrightarrow> Call_accuracy_calculate_helper m \<in> set (calls st) \<or> calculate_accuracy st"
  using assms
proof (induction av arbitrary: st)
  case Nil
  { case 1 then show ?case by simp }
  { case 2 then show ?case by simp }
next
  case (Cons p av)
  obtain m0 a0 where p: "p = (m0, a0)" by (cases p)
  { case 1
    from 1(2)[unfolded p] show ?case
    proof (rule optimize_loop_step)
      fix ro ent0 calc0 cs0
      assume att: "attempt E A L m0 a0 (calculate_accuracy st) = (ro, ent0, calc0, cs0)"
        and go: "ro = None \<Longrightarrow> optimize_loop E A L av
           \<lparr>result_map = (result_map st)(m0 \<mapsto> ent0), calculate_accuracy = calc0,
            calls = calls st @ cs0\<rparr> = (r, st')"
        and stop: "ro \<noteq> None \<Longrightarrow> r = ro \<and> st' = \<lparr>result_map = (result_map st)(m0 \<mapsto> ent0),
            calculate_accuracy = calc0, calls = calls st @ cs0\<rparr>"
      have "Call_optimize m s \<in> set (calls st @ cs0) \<or> s = l_sample_size_for_pot L"
      proof (cases "ro = None")
        case True
        from Cons.IH(1)[OF 1(1) go[OF True]] show ?thesis by simp
      next
        case False
        from stop[OF False] 1(1) show ?thesis by simp
      qed
      then show ?thesis using attempt_calls(2)[OF att] by auto
    qed }
  { case 2
    from 2(2)[unfolded p] show ?case
    proof (rule optimize_loop_step)
      fix ro ent0 calc0 cs0
      assume att: "attempt E A L m0 a0 (calculate_accuracy st) = (ro, ent0, calc0, cs0)"
        and go: "ro = None \<Longrightarrow> optimize_loop E A L av
           \<lparr>result_map = (result_map st)(m0 \<mapsto> ent0), calculate_accuracy = calc0,
            calls = calls st @ cs0\<rparr> = (r, st')"
        and stop: "ro \<noteq> None \<Longrightarrow> r = ro \<and> st' = \<lparr>result_map = (result_map st)(m0 \<mapsto> ent0),
            calculate_accuracy = calc0, calls = calls st @ cs0\<rparr>"
      have "Call_accuracy_calculate_helper m \<in> set (calls st @ cs0) \<or> calc0"
      proof (cases "ro = None")
        case True
        from Cons.IH(2)[OF 2(1) go[OF True]] show ?thesis by simp
      next
        case False
        from stop[OF False] 2(1) show ?thesis by simp
      qed
      then show ?thesis using attempt_calls(3)[OF att] attempt_shape(1)[OF att] by auto
    qed }
qed

subsection \<open>A call of optimize\<close>

lemma optimize_run:
  obtains (rejected) e where "check_arguments E A = Some e"
      "optimize E self A = (Some e, self, [])"
  | (prelude) e where "check_arguments E A = None" "optimize_locals E A = Inl e"
      "raised_by (optimize E self A) = Some e" "calls_of (optimize E self A) = []"
      "optimized_model_dict (object_after (optimize E self A)) = optimized_model_dict self"
  | (loop) L r st where "check_arguments E A = None" "optimize_locals E A = Inr L"
      "optimize_loop E A L (available_dict E A) (initial_state A) = (r, st)"
      "raised_by (optimize E self A) = r"
      "calls_of (optimize E self A) = calls st"
      "self_calculate_accuracy (object_after (optimize E self A)) = Some (calculate_accuracy st)"
      "r = None \<Longrightarrow> optimized_model_dict (object_after (optimize E self A)) = Some (result_map st)"
      "r \<noteq> None \<Longrightarrow> optimized_model_dict (object_after (optimize E self A)) = optimized_model_dict self"
proof (cases "check_arguments E A")
  case (Some e)
  then have "optimize E self A = (Some e, self, [])" by (simp add: optimize_def)
  with Some show ?thesis by (rule rejected)
next
  case None
  show ?thesis
  proof (cases "optimize_locals E A")
    case (Inl e)
    with None show ?thesis
      by (intro prelude[of e]) (simp_all add: optimize_def raised_by_def calls_of_def object_after_def)
  next
    case (Inr L)
    obtain r st where lp:
      "optimize_loop E A L (available_dict E A) (initial_state A) = (r, st)"
      by (cases "optimize_loop E A L (available_dict E A) (initial_state A)")
    show ?thesis
    proof (rule loop[OF None Inr lp])
      show "raised_by (optimize E self A) = r"
        using None Inr lp
        by (cases r) (simp_all add: optimize_def raised_by_def)
      show "calls_of (optimize E self A) = calls st"
        using None Inr lp
        by (cases r) (simp_all add: optimize_def calls_of_def)
      show "self_calculate_accuracy (object_after (optimize E self A)) = Some (calculate_accuracy st)"
        using None Inr lp
        by (cases r) (simp_all add: optimize_def object_after_def)
      show "r = None \<Longrightarrow> optimized_model_dict (object_after (optimize E self A)) = Some (result_map st)"
        using None Inr lp
        by (simp add: optimize_def object_after_def)
      show "r \<noteq> None \<Longrightarrow> optimized_model_dict (object_after (optimize E self A)) = optimized_model_dict self"
        using None Inr lp
        by (cases r) (simp_all add: optimize_def object_after_def)
    qed
  qed
qed

lemma optimize_returned:
  assumes "raised_by (optimize E self A) = None"
  obtains L st where "check_arguments E A = None" "optimize_locals E A = Inr L"
      "optimize_loop E A L (available_dict E A) (initial_state A) = (None, st)"
      "calls_of (optimize E self A) = calls st"
      "self_calculate_accuracy (object_after (optimize E self A)) = Some (calculate_accuracy st)"
      "optimized_model_dict (object_after (optimize E self A)) = Some (result_map st)"
proof (cases E A self rule: optimize_run)
  case (rejected e)
  then show ?thesis using assms by (simp add: raised_by_def)
next
  case (prelude e)
  then show ?thesis using assms by simp
next
  case (loop L r st)
  have "r = None" using loop(4) assms by simp
  with loop that show ?thesis by simp
qed

lemma optimize_locals_forward:
  assumes "optimize_locals E A = Inr L"
  shows "l_sample_size_for_pot L = (if l_baseline_time L > 0.1 then 15 else 100)"
    and "baseline_forward E (l_model L) (l_input_sample L) = (None, l_baseline_time L)"
    and "l_model L = (if \<not> is_nano_model E (arg_model A) then NanoModel E (arg_model A)
                      else arg_model A)"
    and "first_input_sample E (arg_x A) (arg_batch_size A) = Inr (l_input_sample L)"
  using assms
  by (auto simp: optimize_locals_def Let_def invalidInputError_def
      split: sum.splits option.splits prod.splits if_splits)

lemma optimize_locals_forward_fails:
  assumes "first_input_sample E (arg_x A) (arg_batch_size A) = Inr smp"
    and "fst (baseline_forward E (if \<not> is_nano_model E (arg_model A)
                                   then NanoModel E (arg_model A) else arg_model A) smp) = Some e"
  shows "\<exists>err. optimize_locals E A = Inl err"
  using assms
  by (auto simp: optimize_locals_def Let_def invalidInputError_def
      split: sum.splits option.splits prod.splits if_splits)


subsection \<open>The methods picked by includes and excludes\<close>




subsection \<open>The example run\<close>

lemmas example_defs = optimize_def check_arguments_def invalidInputError_def
  optimize_locals_def available_dict_def initial_calculate_accuracy_def initial_state_def
  example_env_def example_args_def example_locals_def optimize_defaults_def fresh_optimizer_def
  spec_available_acceleration_combination_def selected_def
  attempt_def latency_stage_def accuracy_stage_def TFAccelerationOption_optimize_def
  ALL_INFERENCE_ACCELERATION_METHOD_def TFAccelerationOption_def recorded_def
  raised_by_def object_after_def calls_of_def example_args_metric_def Let_def

lemma example_available:
  "available_dict example_env example_args =
     [(''original'', True), (''int8'', True), (''openvino_fp32'', True),
      (''openvino_int8'', True), (''onnxruntime_fp32'', False)]"
  by (simp add: example_defs)

lemma example_returns: "raised_by (optimize example_env fresh_optimizer example_args) = None"
  by (simp add: example_defs)

lemma example_locals: "optimize_locals example_env example_args = Inr example_locals"
  by (simp add: example_defs)

lemma example_original:
  "TFAccelerationOption_optimize example_env TFAccelerationOption (l_model example_locals)
     (arg_x example_args) (arg_y example_args) (l_thread_num example_locals)
     (arg_logging example_args) (l_sample_size_for_pot example_locals) = Inr ''keras''"
  "throughput_calculate_helper example_env (arg_latency_sample_num example_args)
     (l_baseline_time example_locals) ''keras'' (l_input_sample example_locals)
     = Inr (12, False)"
  by (simp_all add: example_defs)



section \<open>Facts about the dataset readers\<close>

lemma list_index_first_position:
  "x \<in> set xs \<Longrightarrow> list_index xs x = Inr (first_position xs x)"
  by (induction xs) (auto simp: first_position_def)

lemma append_files_result:
  "d \<in> set dirs \<Longrightarrow>
   append_files os folder dirs d fs images =
     Inr (images @ map (\<lambda>f. (join os (join os folder d) f,
                               int (first_position dirs d) + 1)) fs)"
  by (induction fs arbitrary: images) (simp_all add: list_index_first_position)

lemma append_dirs_result:
  assumes "set ds \<subseteq> set dirs"
    and "\<forall>d\<in>set ds. listdir os (join os folder d) = Inr (files d)"
  shows "append_dirs os folder dirs ds images =
     Inr (images @ concat (map (\<lambda>d. map (\<lambda>f. (join os (join os folder d) f,
                                                  int (first_position dirs d) + 1))
                                    (files d)) ds))"
  using assms
  by (induction ds arbitrary: images) (simp_all add: append_files_result)

lemma to_sample_fields:
  "label (to_sample os nv (path, lbl)) = lbl"
  "features (to_sample os nv (path, lbl))
     = ndarray_div os (ndarray_and os (cv2_resize os (cv2_imread os path 1) (256, 256)) 255) nv"
  by (simp_all add: to_sample_def resize_image_def)

lemma example_sorted: "sort [''dog'', ''cat''] = [''cat'', ''dog'']"
  by code_simp


section \<open>The claims\<close>

text \<open>
  C1. For every candidate method, the conversion is attempted inside a try/except: when
  \<open>option.optimize\<close> raises, the entry of the method gets the status "fail to convert", the
  loop goes on with the next method, and the exception does not leave the loop. Here the
  methods \<open>before\<close> have been gone through without an exception leaving, and the conversion
  of the next method \<open>m\<close> raises \<open>e\<close>: the loop is then just where it is after storing the
  status, with the methods \<open>rest\<close> still to do. And when \<open>optimize\<close> returns, the status
  recorded for such a method is "fail to convert".
\<close>

theorem conversion_failure_is_caught:
  assumes "map_of ALL_INFERENCE_ACCELERATION_METHOD m = Some opt"
    and "TFAccelerationOption_optimize E opt (l_model L) (arg_x A) (arg_y A)
           (l_thread_num L) (arg_logging A) (l_sample_size_for_pot L) = Inl e"
  shows "(optimize_loop E A L before st = (None, st1) \<longrightarrow>
            optimize_loop E A L (before @ (m, True) # rest) st =
              optimize_loop E A L rest
                \<lparr>result_map = (result_map st1)(m \<mapsto> [''status'' \<mapsto> PyStr ''fail to convert'']),
                 calculate_accuracy = calculate_accuracy st1,
                 calls = calls st1 @ [Call_optimize m (l_sample_size_for_pot L)]\<rparr>)
         \<and> (raised_by (optimize E self A) = None
              \<longrightarrow> distinct (map fst (available_dict E A))
              \<longrightarrow> (m, True) \<in> set (available_dict E A)
              \<longrightarrow> optimize_locals E A = Inr L
              \<longrightarrow> recorded (object_after (optimize E self A)) m ''status''
                    = Some (PyStr ''fail to convert''))"
proof (intro conjI impI)
  assume "optimize_loop E A L before st = (None, st1)"
  then show "optimize_loop E A L (before @ (m, True) # rest) st =
              optimize_loop E A L rest
                \<lparr>result_map = (result_map st1)(m \<mapsto> [''status'' \<mapsto> PyStr ''fail to convert'']),
                 calculate_accuracy = calculate_accuracy st1,
                 calls = calls st1 @ [Call_optimize m (l_sample_size_for_pot L)]\<rparr>"
    using assms by (simp add: optimize_loop_append attempt_convert_fails)
next
  assume ret: "raised_by (optimize E self A) = None"
    and dist: "distinct (map fst (available_dict E A))"
    and mem: "(m, True) \<in> set (available_dict E A)"
    and loc: "optimize_locals E A = Inr L"
  from ret show "recorded (object_after (optimize E self A)) m ''status''
                    = Some (PyStr ''fail to convert'')"
  proof (rule optimize_returned)
    fix L' st'
    assume L': "optimize_locals E A = Inr L'"
      and lp: "optimize_loop E A L' (available_dict E A) (initial_state A) = (None, st')"
      and rm: "optimized_model_dict (object_after (optimize E self A)) = Some (result_map st')"
    have L: "L' = L" using L' loc by simp
    from optimize_loop_entry[OF lp[unfolded L] dist mem]
    obtain calc ent calc' cs' where att: "attempt E A L m True calc = (None, ent, calc', cs')"
      and ent: "result_map st' m = Some ent"
      by blast
    from att attempt_convert_fails[OF assms, of calc]
    have "ent = [''status'' \<mapsto> PyStr ''fail to convert'']" by simp
    with ent rm show ?thesis by (simp add: recorded_def)
  qed
qed

theorem conversion_failure_is_caught_witness:
  "map_of ALL_INFERENCE_ACCELERATION_METHOD ''int8'' = Some (TFAccelerationOption\<lparr>inc := True\<rparr>)
   \<and> TFAccelerationOption_optimize example_env (TFAccelerationOption\<lparr>inc := True\<rparr>)
        (l_model example_locals) (arg_x example_args) (arg_y example_args)
        (l_thread_num example_locals) (arg_logging example_args)
        (l_sample_size_for_pot example_locals) = Inl (Exception ''no tuning result'')
   \<and> optimize_loop example_env example_args example_locals [(''onnxruntime_fp32'', False)]
        (initial_state example_args)
       = (None, \<lparr>result_map = [''onnxruntime_fp32'' \<mapsto> [''status'' \<mapsto> PyStr ''lack dependency'']],
                 calculate_accuracy = False, calls = []\<rparr>)
   \<and> optimize_loop example_env example_args example_locals
        ([(''onnxruntime_fp32'', False)] @ (''int8'', True) # [(''openvino_fp32'', True)])
        (initial_state example_args)
       = optimize_loop example_env example_args example_locals [(''openvino_fp32'', True)]
           \<lparr>result_map = [''onnxruntime_fp32'' \<mapsto> [''status'' \<mapsto> PyStr ''lack dependency''],
                           ''int8'' \<mapsto> [''status'' \<mapsto> PyStr ''fail to convert'']],
            calculate_accuracy = False,
            calls = [Call_optimize ''int8'' 15]\<rparr>
   \<and> raised_by (optimize example_env fresh_optimizer example_args) = None
   \<and> distinct (map fst (available_dict example_env example_args))
   \<and> (''int8'', True) \<in> set (available_dict example_env example_args)
   \<and> optimize_locals example_env example_args = Inr example_locals
   \<and> recorded (object_after (optimize example_env fresh_optimizer example_args))
        ''int8'' ''status'' = Some (PyStr ''fail to convert'')"
proof -
  have h1: "map_of ALL_INFERENCE_ACCELERATION_METHOD ''int8'' = Some (TFAccelerationOption\<lparr>inc := True\<rparr>)"
    by (simp add: ALL_INFERENCE_ACCELERATION_METHOD_def)
  have h2: "TFAccelerationOption_optimize example_env (TFAccelerationOption\<lparr>inc := True\<rparr>)
        (l_model example_locals) (arg_x example_args) (arg_y example_args)
        (l_thread_num example_locals) (arg_logging example_args)
        (l_sample_size_for_pot example_locals) = Inl (Exception ''no tuning result'')"
    by (simp add: example_defs)
  have h3: "optimize_loop example_env example_args example_locals [(''onnxruntime_fp32'', False)]
        (initial_state example_args)
       = (None, \<lparr>result_map = [''onnxruntime_fp32'' \<mapsto> [''status'' \<mapsto> PyStr ''lack dependency'']],
                 calculate_accuracy = False, calls = []\<rparr>)"
    by (simp add: example_defs)
  have h5: "distinct (map fst (available_dict example_env example_args))"
    and h6: "(''int8'', True) \<in> set (available_dict example_env example_args)"
    by (simp_all add: example_available)
  note t = conversion_failure_is_caught[OF h1 h2]
  have c1: "optimize_loop example_env example_args example_locals
        ([(''onnxruntime_fp32'', False)] @ (''int8'', True) # [(''openvino_fp32'', True)])
        (initial_state example_args)
       = optimize_loop example_env example_args example_locals [(''openvino_fp32'', True)]
           \<lparr>result_map = [''onnxruntime_fp32'' \<mapsto> [''status'' \<mapsto> PyStr ''lack dependency''],
                           ''int8'' \<mapsto> [''status'' \<mapsto> PyStr ''fail to convert'']],
            calculate_accuracy = False,
            calls = [Call_optimize ''int8'' 15]\<rparr>"
    using t[THEN conjunct1, rule_format, OF h3, of "[(''openvino_fp32'', True)]"]
    by (simp add: example_locals_def)
  have c2: "recorded (object_after (optimize example_env fresh_optimizer example_args))
        ''int8'' ''status'' = Some (PyStr ''fail to convert'')"
    by (rule t[THEN conjunct2, rule_format, OF example_returns h5 h6 example_locals])
  from h1 h2 h3 c1 example_returns h5 h6 example_locals c2 show ?thesis by blast
qed

text \<open>
  C2. When \<open>optimize\<close> returns, \<open>optimized_model_dict\<close> has an entry for exactly the methods
  of the available-method dictionary, the status of every entry is one of the five
  strings, and an entry holds a model only when its status is "successful".
\<close>

theorem optimized_model_dict_entries:
  assumes "raised_by (optimize E self A) = None"
  shows "\<exists>rm. optimized_model_dict (object_after (optimize E self A)) = Some rm
           \<and> dom rm = fst ` set (available_dict E A)
           \<and> (\<forall>m ent. rm m = Some ent \<longrightarrow>
                 ent ''status'' \<in> {Some (PyStr ''lack dependency''), Some (PyStr ''fail to convert''),
                    Some (PyStr ''successful''), Some (PyStr ''early stopped''),
                    Some (PyStr ''fail to forward'')}
                 \<and> (ent ''model'' \<noteq> None \<longrightarrow> ent ''status'' = Some (PyStr ''successful'')))"
  using assms
proof (rule optimize_returned)
  fix L st
  assume lp: "optimize_loop E A L (available_dict E A) (initial_state A) = (None, st)"
    and rm: "optimized_model_dict (object_after (optimize E self A)) = Some (result_map st)"
  have d: "dom (result_map st) = fst ` set (available_dict E A)"
    using optimize_loop_dom[OF lp] by (simp add: initial_state_def)
  have "ent ''status'' \<in> {Some (PyStr ''lack dependency''), Some (PyStr ''fail to convert''),
                    Some (PyStr ''successful''), Some (PyStr ''early stopped''),
                    Some (PyStr ''fail to forward'')}
        \<and> (ent ''model'' \<noteq> None \<longrightarrow> ent ''status'' = Some (PyStr ''successful''))"
    if "result_map st m = Some ent" for m ent
  proof -
    from optimize_loop_provenance[OF lp, of m] that
    obtain a calc calc' cs where "attempt E A L m a calc = (None, ent, calc', cs)"
      by (auto simp: initial_state_def)
    from attempt_shape(2,3)[OF this] show ?thesis by blast
  qed
  with rm d show ?thesis by blast
qed

theorem optimized_model_dict_entries_witness:
  "raised_by (optimize example_env fresh_optimizer example_args) = None
   \<and> (\<exists>rm. optimized_model_dict (object_after (optimize example_env fresh_optimizer example_args))
              = Some rm
           \<and> dom rm = {''original'', ''int8'', ''openvino_fp32'', ''openvino_int8'',
                        ''onnxruntime_fp32''}
           \<and> (\<forall>m ent. rm m = Some ent \<longrightarrow>
                 ent ''status'' \<in> {Some (PyStr ''lack dependency''), Some (PyStr ''fail to convert''),
                    Some (PyStr ''successful''), Some (PyStr ''early stopped''),
                    Some (PyStr ''fail to forward'')}
                 \<and> (ent ''model'' \<noteq> None \<longrightarrow> ent ''status'' = Some (PyStr ''successful''))))"
  using optimized_model_dict_entries[OF example_returns] example_returns
  by (simp add: example_available)

text \<open>
  C4. For a method whose conversion succeeds, \<open>throughput_calculate_helper\<close> is called with
  \<open>latency_sample_num\<close> repetitions (100 when the argument is not given) on the converted
  model, and the latency it answers is stored in the entry of the method.
\<close>

theorem latency_is_measured_and_stored:
  fixes A :: "('m, 'd, 'k) optimize_args"
  assumes "raised_by (optimize E self A) = None"
    and "distinct (map fst (available_dict E A))"
    and "(m, True) \<in> set (available_dict E A)"
    and "map_of ALL_INFERENCE_ACCELERATION_METHOD m = Some opt"
    and "optimize_locals E A = Inr L"
    and "TFAccelerationOption_optimize E opt (l_model L) (arg_x A) (arg_y A)
           (l_thread_num L) (arg_logging A) (l_sample_size_for_pot L) = Inr acce_model"
    and "throughput_calculate_helper E (arg_latency_sample_num A) (l_baseline_time L)
           acce_model (l_input_sample L) = Inr (lat, fl)"
  shows "recorded (object_after (optimize E self A)) m ''latency'' = Some (PyFloat lat)
         \<and> Call_throughput_calculate_helper m (arg_latency_sample_num A)
              \<in> set (calls_of (optimize E self A))
         \<and> arg_latency_sample_num (optimize_defaults (arg_model A) (arg_x A) :: ('m, 'd, 'k) optimize_args) = 100"
  using assms(1)
proof (rule optimize_returned)
  fix L' st
  assume L': "optimize_locals E A = Inr L'"
    and lp: "optimize_loop E A L' (available_dict E A) (initial_state A) = (None, st)"
    and cs: "calls_of (optimize E self A) = calls st"
    and rm: "optimized_model_dict (object_after (optimize E self A)) = Some (result_map st)"
  have L: "L' = L" using L' assms(5) by simp
  from optimize_loop_entry[OF lp[unfolded L] assms(2,3)]
  obtain calc ent calc' cs' where att: "attempt E A L m True calc = (None, ent, calc', cs')"
    and ent: "result_map st m = Some ent" and sub: "set cs' \<subseteq> set (calls st)"
    by blast
  from attempt_measured(1,2)[OF att assms(4,6,7)]
  have "ent ''latency'' = Some (PyFloat lat)"
    and "Call_throughput_calculate_helper m (arg_latency_sample_num A) \<in> set cs'"
    by simp_all
  then show ?thesis using ent sub rm cs
    by (auto simp: recorded_def optimize_defaults_def)
qed

theorem latency_is_measured_and_stored_witness:
  "raised_by (optimize example_env fresh_optimizer example_args) = None
   \<and> distinct (map fst (available_dict example_env example_args))
   \<and> (''openvino_fp32'', True) \<in> set (available_dict example_env example_args)
   \<and> map_of ALL_INFERENCE_ACCELERATION_METHOD ''openvino_fp32''
        = Some (TFAccelerationOption\<lparr>openvino := True\<rparr>)
   \<and> optimize_locals example_env example_args = Inr example_locals
   \<and> TFAccelerationOption_optimize example_env (TFAccelerationOption\<lparr>openvino := True\<rparr>)
        (l_model example_locals) (arg_x example_args) (arg_y example_args)
        (l_thread_num example_locals) (arg_logging example_args)
        (l_sample_size_for_pot example_locals) = Inr ''traced keras''
   \<and> throughput_calculate_helper example_env (arg_latency_sample_num example_args)
        (l_baseline_time example_locals) ''traced keras'' (l_input_sample example_locals)
        = Inr (7, True)
   \<and> recorded (object_after (optimize example_env fresh_optimizer example_args))
        ''openvino_fp32'' ''latency'' = Some (PyFloat 7)
   \<and> Call_throughput_calculate_helper ''openvino_fp32'' 100
        \<in> set (calls_of (optimize example_env fresh_optimizer example_args))"
proof -
  have h2: "distinct (map fst (available_dict example_env example_args))"
    by (simp add: example_available)
  have h3: "(''openvino_fp32'', True) \<in> set (available_dict example_env example_args)"
    by (simp add: example_available)
  have h4: "map_of ALL_INFERENCE_ACCELERATION_METHOD ''openvino_fp32''
        = Some (TFAccelerationOption\<lparr>openvino := True\<rparr>)"
    by (simp add: ALL_INFERENCE_ACCELERATION_METHOD_def)
  have h6: "TFAccelerationOption_optimize example_env (TFAccelerationOption\<lparr>openvino := True\<rparr>)
        (l_model example_locals) (arg_x example_args) (arg_y example_args)
        (l_thread_num example_locals) (arg_logging example_args)
        (l_sample_size_for_pot example_locals) = Inr ''traced keras''"
    by (simp add: example_defs)
  have h7: "throughput_calculate_helper example_env (arg_latency_sample_num example_args)
        (l_baseline_time example_locals) ''traced keras'' (l_input_sample example_locals)
        = Inr (7, True)"
    by (simp add: example_defs)
  have n: "arg_latency_sample_num example_args = 100"
    by (simp add: example_defs)
  from latency_is_measured_and_stored[OF example_returns h2 h3 h4 example_locals h6 h7]
    example_returns h2 h3 h4 example_locals h6 h7 n
  show ?thesis by simp
qed

text \<open>
  C3. \<open>Estimator.from_keras\<close> dispatches on the string \<open>backend\<close>: "tf2" and "horovod" give a
  TensorFlow2Estimator, "spark" gives a SparkTFEstimator, and every other string raises a
  ValueError, so that no estimator is returned.
\<close>

theorem from_keras_dispatch:
  "(backend \<in> {''tf2'', ''horovod''} \<longrightarrow>
      from_keras model_creator config verbose workers_per_node compile_args_creator backend
        cpu_binding
      = Inr (TensorFlow2Estimator model_creator config verbose workers_per_node backend
               compile_args_creator cpu_binding))
   \<and> (backend = ''spark'' \<longrightarrow>
      from_keras model_creator config verbose workers_per_node compile_args_creator backend
        cpu_binding
      = Inr (SparkTFEstimator model_creator config verbose compile_args_creator
               workers_per_node))
   \<and> (backend \<notin> {''tf2'', ''horovod'', ''spark''} \<longrightarrow>
      (\<exists>msg. from_keras model_creator config verbose workers_per_node compile_args_creator
               backend cpu_binding = Inl (ValueError msg)))"
  by (simp add: from_keras_def)

theorem from_keras_dispatch_witness:
  "from_keras (1::nat) (None :: nat option) False 1 (None :: nat option) ''tf2'' False
     = Inr (TensorFlow2Estimator 1 None False 1 ''tf2'' None False)
   \<and> from_keras (1::nat) (None :: nat option) False 1 (None :: nat option) ''horovod'' False
     = Inr (TensorFlow2Estimator 1 None False 1 ''horovod'' None False)
   \<and> from_keras (1::nat) (None :: nat option) False 1 (None :: nat option) ''spark'' False
     = Inr (SparkTFEstimator 1 None False None 1)
   \<and> (\<exists>msg. from_keras (1::nat) (None :: nat option) False 1 (None :: nat option)
                  ''ray'' False = Inl (ValueError msg))"
  using from_keras_dispatch[of "''tf2''" "1::nat" "None :: nat option" False 1 "None :: nat option" False]
    from_keras_dispatch[of "''horovod''" "1::nat" "None :: nat option" False 1 "None :: nat option" False]
    from_keras_dispatch[of "''spark''" "1::nat" "None :: nat option" False 1 "None :: nat option" False]
    from_keras_dispatch[of "''ray''" "1::nat" "None :: nat option" False 1 "None :: nat option" False]
  by simp






text \<open>
  C7. The readers answer with one Sample per element, labels starting at 1: \<open>read_local\<close>
  gives each file the label 1 plus the position of its directory in the sorted listing,
  and \<open>get_mnist\<close> gives each image its mnist label plus 1.
\<close>

theorem readers_label_from_one:
  "(listdir os folder = Inr listing
      \<longrightarrow> (\<forall>d\<in>set listing. listdir os (join os folder d) = Inr (files d))
      \<longrightarrow> (\<exists>samples. read_local os folder normalize_value = Inr samples
            \<and> map label samples
                = concat (map (\<lambda>d. map (\<lambda>f. int (first_position (sort listing) d) + 1)
                                     (files d))
                            (sort listing))
            \<and> map features samples
                = concat (map (\<lambda>d. map (\<lambda>f. ndarray_div os
                                             (ndarray_and os
                                                (cv2_resize os
                                                   (cv2_imread os (join os (join os folder d) f) 1)
                                                   (256, 256)) 255) normalize_value)
                                     (files d))
                            (sort listing))
            \<and> (\<forall>s\<in>set samples. 1 \<le> label s)))
   \<and> (read_data_sets location data_type = (images, labels)
      \<longrightarrow> length images = length labels
      \<longrightarrow> (\<exists>samples. get_mnist read_data_sets data_type location = Inr samples
            \<and> map label samples = map (\<lambda>l. l + 1) labels
            \<and> map features samples = images
            \<and> ((\<forall>l\<in>set labels. 0 \<le> l) \<longrightarrow> (\<forall>s\<in>set samples. 1 \<le> label s))))"
proof (intro conjI impI)
  assume ls: "listdir os folder = Inr listing"
    and sub: "\<forall>d\<in>set listing. listdir os (join os folder d) = Inr (files d)"
  let ?dirs = "sort listing"
  let ?images = "concat (map (\<lambda>d. map (\<lambda>f. (join os (join os folder d) f,
                                                  int (first_position ?dirs d) + 1))
                                    (files d)) ?dirs)"
  have "append_dirs os folder ?dirs ?dirs [] = Inr ([] @ ?images)"
    by (rule append_dirs_result) (use sub in simp_all)
  then have rl: "read_local os folder normalize_value
                   = Inr (map (to_sample os normalize_value) ?images)"
    using ls by (simp add: read_local_def Let_def)
  have l: "map label (map (to_sample os normalize_value) ?images)
             = concat (map (\<lambda>d. map (\<lambda>f. int (first_position ?dirs d) + 1) (files d)) ?dirs)"
    by (simp add: map_concat comp_def to_sample_fields)
  have f: "map features (map (to_sample os normalize_value) ?images)
             = concat (map (\<lambda>d. map (\<lambda>f. ndarray_div os
                                             (ndarray_and os
                                                (cv2_resize os
                                                   (cv2_imread os (join os (join os folder d) f) 1)
                                                   (256, 256)) 255) normalize_value)
                                     (files d)) ?dirs)"
    by (simp add: map_concat comp_def to_sample_fields)
  have p: "\<forall>s\<in>set (map (to_sample os normalize_value) ?images). 1 \<le> label s"
    by (auto simp: to_sample_fields)
  from rl l f p
  show "\<exists>samples. read_local os folder normalize_value = Inr samples
            \<and> map label samples
                = concat (map (\<lambda>d. map (\<lambda>f. int (first_position (sort listing) d) + 1)
                                     (files d))
                            (sort listing))
            \<and> map features samples
                = concat (map (\<lambda>d. map (\<lambda>f. ndarray_div os
                                             (ndarray_and os
                                                (cv2_resize os
                                                   (cv2_imread os (join os (join os folder d) f) 1)
                                                   (256, 256)) 255) normalize_value)
                                     (files d))
                            (sort listing))
            \<and> (\<forall>s\<in>set samples. 1 \<le> label s)"
    by blast
next
  assume rd: "read_data_sets location data_type = (images, labels)"
    and len: "length images = length labels"
  let ?samples = "map (\<lambda>features_label.
                         \<lparr>features = fst features_label, label = snd features_label + 1\<rparr>)
                    (zip images labels)"
  have g: "get_mnist read_data_sets data_type location = Inr ?samples"
    using rd len by (simp add: get_mnist_def rdd_zip_def)
  have l: "map label ?samples = map (\<lambda>l. l + 1) labels"
  proof -
    have "map label ?samples = map (\<lambda>l. l + 1) (map snd (zip images labels))"
      by (simp add: comp_def)
    then show ?thesis using len by simp
  qed
  have f: "map features ?samples = images"
  proof -
    have "map features ?samples = map fst (zip images labels)"
      by (simp add: comp_def)
    then show ?thesis using len by simp
  qed
  have p: "(\<forall>l\<in>set labels. 0 \<le> l) \<longrightarrow> (\<forall>s\<in>set ?samples. 1 \<le> label s)"
    by (auto dest: set_zip_rightD)
  from g l f p
  show "\<exists>samples. get_mnist read_data_sets data_type location = Inr samples
            \<and> map label samples = map (\<lambda>l. l + 1) labels
            \<and> map features samples = images
            \<and> ((\<forall>l\<in>set labels. 0 \<le> l) \<longrightarrow> (\<forall>s\<in>set samples. 1 \<le> label s))"
    by blast
qed

theorem readers_label_from_one_witness:
  "listdir example_os ''data'' = Inr [''dog'', ''cat'']
   \<and> listdir example_os (join example_os ''data'' ''dog'') = Inr [''3.jpg'']
   \<and> listdir example_os (join example_os ''data'' ''cat'') = Inr [''1.jpg'', ''2.jpg'']
   \<and> (\<exists>samples. read_local example_os ''data'' 255 = Inr samples
          \<and> map label samples = [1, 1, 2]
          \<and> map features samples = [''data/cat/1.jpg'', ''data/cat/2.jpg'', ''data/dog/3.jpg''])
   \<and> (\<lambda>location data_type. ([''seven'', ''two''], [7, 2 :: int])) ''/tmp/mnist'' ''train''
        = ([''seven'', ''two''], [7, 2])
   \<and> length [''seven'', ''two''] = length [7, 2 :: int]
   \<and> (\<exists>samples. get_mnist (\<lambda>location data_type. ([''seven'', ''two''], [7, 2])) ''train''
                   ''/tmp/mnist'' = Inr samples
          \<and> map label samples = [8, 3]
          \<and> map features samples = [''seven'', ''two''])"
proof -
  let ?files = "\<lambda>d. if d = ''dog'' then [''3.jpg''] else [''1.jpg'', ''2.jpg'']"
  have h1: "listdir example_os ''data'' = Inr [''dog'', ''cat'']"
    and h2: "listdir example_os (join example_os ''data'' ''dog'') = Inr [''3.jpg'']"
    and h3: "listdir example_os (join example_os ''data'' ''cat'') = Inr [''1.jpg'', ''2.jpg'']"
    by (simp_all add: example_os_def)
  have h4: "\<forall>d\<in>set [''dog'', ''cat'']. listdir example_os (join example_os ''data'' d)
              = Inr (?files d)"
    using h2 h3 by simp
  have h5: "(\<lambda>location data_type. ([''seven'', ''two''], [7, 2 :: int])) ''/tmp/mnist'' ''train''
        = ([''seven'', ''two''], [7, 2])"
    and h6: "length [''seven'', ''two''] = length [7, 2 :: int]"
    by simp_all
  note t = readers_label_from_one[of example_os "''data''" "[''dog'', ''cat'']" ?files 255
      "\<lambda>location data_type. ([''seven'', ''two''], [7, 2])" "''/tmp/mnist''" "''train''"
      "[''seven'', ''two'']" "[7, 2]"]
  have c1: "\<exists>samples. read_local example_os ''data'' 255 = Inr samples
          \<and> map label samples = [1, 1, 2]
          \<and> map features samples = [''data/cat/1.jpg'', ''data/cat/2.jpg'', ''data/dog/3.jpg'']"
    using t[THEN conjunct1, THEN mp, OF h1, THEN mp, OF h4]
    by (auto simp: example_sorted first_position_def example_os_def)
  have c2: "\<exists>samples. get_mnist (\<lambda>location data_type. ([''seven'', ''two''], [7, 2])) ''train''
                   ''/tmp/mnist'' = Inr samples
          \<and> map label samples = [8, 3]
          \<and> map features samples = [''seven'', ''two'']"
    using t[THEN conjunct2, THEN mp, OF h5, THEN mp, OF h6] by auto
  from h1 h2 h3 c1 h5 h6 c2 show ?thesis by blast
qed

text \<open>
  C8. \<open>optimize\<close> checks its arguments before any method is attempted: when the model is
  no Keras model, when the direction is neither "min" nor "max", or when \<open>y\<close> is absent
  and \<open>x\<close> is no dataset, it raises, leaves the optimizer object as it was and has called
  no converter.
\<close>

theorem optimize_rejects_arguments:
  assumes "\<not> is_keras_model E (arg_model A) \<or> arg_direction A \<notin> {''min'', ''max''}
           \<or> (arg_y A = None \<and> \<not> is_dataset E (arg_x A))"
  shows "\<exists>msg. optimize E self A = (Some (InvalidInputError msg), self, [])"
  using assms
  by (auto simp: optimize_def check_arguments_def invalidInputError_def)

theorem optimize_rejects_arguments_witness:
  "arg_direction (example_args\<lparr>arg_direction := ''up''\<rparr>) \<notin> {''min'', ''max''}
   \<and> (\<exists>msg. optimize example_env fresh_optimizer (example_args\<lparr>arg_direction := ''up''\<rparr>)
              = (Some (InvalidInputError msg), fresh_optimizer, []))
   \<and> \<not> is_keras_model example_env (arg_model (example_args\<lparr>arg_model := ''not a model''\<rparr>))
   \<and> (\<exists>msg. optimize example_env fresh_optimizer (example_args\<lparr>arg_model := ''not a model''\<rparr>)
              = (Some (InvalidInputError msg), fresh_optimizer, []))
   \<and> arg_y (example_args\<lparr>arg_y := None\<rparr>) = None
   \<and> \<not> is_dataset example_env (arg_x (example_args\<lparr>arg_y := None\<rparr>))
   \<and> (\<exists>msg. optimize example_env fresh_optimizer (example_args\<lparr>arg_y := None\<rparr>)
              = (Some (InvalidInputError msg), fresh_optimizer, []))"
proof -
  have h1: "arg_direction (example_args\<lparr>arg_direction := ''up''\<rparr>) \<notin> {''min'', ''max''}"
    by simp
  have h2: "\<not> is_keras_model example_env (arg_model (example_args\<lparr>arg_model := ''not a model''\<rparr>))"
    by (simp add: example_env_def)
  have h3: "arg_y (example_args\<lparr>arg_y := None\<rparr>) = None
            \<and> \<not> is_dataset example_env (arg_x (example_args\<lparr>arg_y := None\<rparr>))"
    by (simp add: example_env_def)
  from optimize_rejects_arguments[of example_env "example_args\<lparr>arg_direction := ''up''\<rparr>" fresh_optimizer]
    optimize_rejects_arguments[of example_env "example_args\<lparr>arg_model := ''not a model''\<rparr>" fresh_optimizer]
    optimize_rejects_arguments[of example_env "example_args\<lparr>arg_y := None\<rparr>" fresh_optimizer]
    h1 h2 h3
  show ?thesis by blast
qed

text \<open>
  C9. The sample size handed to every conversion is 15 when the baseline forward pass of
  the model took more than 0.1 seconds and 100 otherwise; when that forward pass raises,
  \<open>optimize\<close> raises, no method is attempted and no result is recorded.
\<close>

theorem sample_size_for_pot_from_baseline:
  "(\<forall>m s. Call_optimize m s \<in> set (calls_of (optimize E self A)) \<longrightarrow>
      (\<exists>L. optimize_locals E A = Inr L
           \<and> baseline_forward E (l_model L) (l_input_sample L) = (None, l_baseline_time L)
           \<and> s = (if l_baseline_time L > 0.1 then 15 else 100)))
   \<and> (\<forall>smp e. first_input_sample E (arg_x A) (arg_batch_size A) = Inr smp
        \<longrightarrow> fst (baseline_forward E (if \<not> is_nano_model E (arg_model A)
                                       then NanoModel E (arg_model A) else arg_model A) smp)
              = Some e
        \<longrightarrow> raised_by (optimize E self A) \<noteq> None
            \<and> calls_of (optimize E self A) = []
            \<and> optimized_model_dict (object_after (optimize E self A))
                = optimized_model_dict self)"
proof (intro conjI allI impI)
  fix m s
  assume c: "Call_optimize m s \<in> set (calls_of (optimize E self A))"
  show "\<exists>L. optimize_locals E A = Inr L
           \<and> baseline_forward E (l_model L) (l_input_sample L) = (None, l_baseline_time L)
           \<and> s = (if l_baseline_time L > 0.1 then 15 else 100)"
  proof (cases E A self rule: optimize_run)
    case (rejected e)
    then show ?thesis using c by (simp add: calls_of_def)
  next
    case (prelude e)
    then show ?thesis using c by simp
  next
    case (loop L r st)
    from c loop(5) have "Call_optimize m s \<in> set (calls st)" by simp
    from optimize_loop_call_args(1)[OF loop(3) this]
    have "s = l_sample_size_for_pot L" by (simp add: initial_state_def)
    with optimize_locals_forward(1,2)[OF loop(2)] loop(2) show ?thesis by simp
  qed
next
  fix smp e
  assume s: "first_input_sample E (arg_x A) (arg_batch_size A) = Inr smp"
    and f: "fst (baseline_forward E (if \<not> is_nano_model E (arg_model A)
                                   then NanoModel E (arg_model A) else arg_model A) smp) = Some e"
  from optimize_locals_forward_fails[OF s f] obtain err where
    err: "optimize_locals E A = Inl err" by blast
  have "raised_by (optimize E self A) \<noteq> None \<and> calls_of (optimize E self A) = []
        \<and> optimized_model_dict (object_after (optimize E self A)) = optimized_model_dict self"
  proof (cases E A self rule: optimize_run)
    case (rejected e)
    then show ?thesis by (simp add: raised_by_def calls_of_def object_after_def)
  next
    case (prelude e)
    then show ?thesis by simp
  next
    case (loop L r st)
    then show ?thesis using err by simp
  qed
  then show "raised_by (optimize E self A) \<noteq> None"
    and "calls_of (optimize E self A) = []"
    and "optimized_model_dict (object_after (optimize E self A)) = optimized_model_dict self"
    by simp_all
qed

theorem sample_size_for_pot_from_baseline_witness:
  "Call_optimize ''int8'' 15 \<in> set (calls_of (optimize example_env fresh_optimizer example_args))
   \<and> (\<exists>L. optimize_locals example_env example_args = Inr L
           \<and> baseline_forward example_env (l_model L) (l_input_sample L) = (None, l_baseline_time L)
           \<and> l_baseline_time L = 0.2
           \<and> (15::int) = (if l_baseline_time L > 0.1 then 15 else 100))
   \<and> first_input_sample example_env (arg_x (example_args\<lparr>arg_x := 0\<rparr>))
        (arg_batch_size (example_args\<lparr>arg_x := 0\<rparr>)) = Inr 0
   \<and> fst (baseline_forward example_env
             (if \<not> is_nano_model example_env (arg_model (example_args\<lparr>arg_x := 0\<rparr>))
              then NanoModel example_env (arg_model (example_args\<lparr>arg_x := 0\<rparr>))
              else arg_model (example_args\<lparr>arg_x := 0\<rparr>)) 0)
        = Some (Exception ''shape mismatch'')
   \<and> raised_by (optimize example_env fresh_optimizer (example_args\<lparr>arg_x := 0\<rparr>)) \<noteq> None
   \<and> calls_of (optimize example_env fresh_optimizer (example_args\<lparr>arg_x := 0\<rparr>)) = []
   \<and> optimized_model_dict
         (object_after (optimize example_env fresh_optimizer (example_args\<lparr>arg_x := 0\<rparr>)))
       = optimized_model_dict fresh_optimizer"
proof -
  have h1: "Call_optimize ''int8'' 15
              \<in> set (calls_of (optimize example_env fresh_optimizer example_args))"
    by (simp add: example_defs)
  have h2: "first_input_sample example_env (arg_x (example_args\<lparr>arg_x := 0\<rparr>))
        (arg_batch_size (example_args\<lparr>arg_x := 0\<rparr>)) = Inr 0"
    by (simp add: example_env_def)
  have h3: "fst (baseline_forward example_env
             (if \<not> is_nano_model example_env (arg_model (example_args\<lparr>arg_x := 0\<rparr>))
              then NanoModel example_env (arg_model (example_args\<lparr>arg_x := 0\<rparr>))
              else arg_model (example_args\<lparr>arg_x := 0\<rparr>)) 0)
        = Some (Exception ''shape mismatch'')"
    by (simp add: example_env_def)
  have h4: "l_baseline_time example_locals = 0.2"
    by (simp add: example_locals_def)
  have c1: "\<exists>L. optimize_locals example_env example_args = Inr L
           \<and> baseline_forward example_env (l_model L) (l_input_sample L) = (None, l_baseline_time L)
           \<and> l_baseline_time L = 0.2
           \<and> (15::int) = (if l_baseline_time L > 0.1 then 15 else 100)"
    using conjunct1[OF sample_size_for_pot_from_baseline[of example_env fresh_optimizer
          example_args], rule_format, OF h1] example_locals h4
    by auto
  have c2: "raised_by (optimize example_env fresh_optimizer (example_args\<lparr>arg_x := 0\<rparr>)) \<noteq> None
   \<and> calls_of (optimize example_env fresh_optimizer (example_args\<lparr>arg_x := 0\<rparr>)) = []
   \<and> optimized_model_dict
         (object_after (optimize example_env fresh_optimizer (example_args\<lparr>arg_x := 0\<rparr>)))
       = optimized_model_dict fresh_optimizer"
    by (rule conjunct2[OF sample_size_for_pot_from_baseline[of example_env fresh_optimizer
          "example_args\<lparr>arg_x := 0\<rparr>"], rule_format, OF h2 h3])
  from h1 c1 h2 h3 c2 show ?thesis by (intro conjI) (erule conjunct1 conjunct2 | assumption | (drule conjunct2, erule conjunct1) | (drule conjunct2, erule conjunct2))+
qed

text \<open>
  C10. "original" is never recorded as "early stopped": when its conversion and its
  latency measurement return, whatever the early-stop flag of the helper says, its status
  is "successful" and its model is recorded.
\<close>

theorem original_is_never_early_stopped:
  "(raised_by (optimize E self A) = None
      \<longrightarrow> recorded (object_after (optimize E self A)) ''original'' ''status''
            \<noteq> Some (PyStr ''early stopped''))
   \<and> (raised_by (optimize E self A) = None
        \<longrightarrow> distinct (map fst (available_dict E A))
        \<longrightarrow> (''original'', True) \<in> set (available_dict E A)
        \<longrightarrow> optimize_locals E A = Inr L
        \<longrightarrow> TFAccelerationOption_optimize E TFAccelerationOption (l_model L) (arg_x A) (arg_y A)
              (l_thread_num L) (arg_logging A) (l_sample_size_for_pot L) = Inr acce_model
        \<longrightarrow> throughput_calculate_helper E (arg_latency_sample_num A) (l_baseline_time L)
              acce_model (l_input_sample L) = Inr (lat, early_stop_flag)
        \<longrightarrow> recorded (object_after (optimize E self A)) ''original'' ''status''
              = Some (PyStr ''successful'')
            \<and> recorded (object_after (optimize E self A)) ''original'' ''model''
              = Some (PyModel acce_model))"
proof (intro conjI impI)
  assume ret: "raised_by (optimize E self A) = None"
  from ret show "recorded (object_after (optimize E self A)) ''original'' ''status''
     \<noteq> Some (PyStr ''early stopped'')"
  proof (rule optimize_returned)
    fix L' st
    assume lp: "optimize_loop E A L' (available_dict E A) (initial_state A) = (None, st)"
      and rm: "optimized_model_dict (object_after (optimize E self A)) = Some (result_map st)"
    from optimize_loop_provenance[OF lp, of "''original''"]
    consider (absent) "result_map st ''original'' = None"
      | (made) a calc ent calc' cs where "attempt E A L' ''original'' a calc = (None, ent, calc', cs)"
          "result_map st ''original'' = Some ent"
      by (auto simp: initial_state_def)
    then show ?thesis
    proof cases
      case absent
      then show ?thesis using rm by (simp add: recorded_def)
    next
      case made
      from attempt_shape(4)[OF made(1)] made(2) rm show ?thesis
        by (simp add: recorded_def)
    qed
  qed
next
  assume ret: "raised_by (optimize E self A) = None"
    and dist: "distinct (map fst (available_dict E A))"
    and mem: "(''original'', True) \<in> set (available_dict E A)"
    and loc: "optimize_locals E A = Inr L"
    and conv: "TFAccelerationOption_optimize E TFAccelerationOption (l_model L) (arg_x A) (arg_y A)
              (l_thread_num L) (arg_logging A) (l_sample_size_for_pot L) = Inr acce_model"
    and lat: "throughput_calculate_helper E (arg_latency_sample_num A) (l_baseline_time L)
              acce_model (l_input_sample L) = Inr (lat, early_stop_flag)"
  have tab: "map_of ALL_INFERENCE_ACCELERATION_METHOD ''original'' = Some TFAccelerationOption"
    by (simp add: ALL_INFERENCE_ACCELERATION_METHOD_def)
  from ret have "recorded (object_after (optimize E self A)) ''original'' ''status''
              = Some (PyStr ''successful'')
            \<and> recorded (object_after (optimize E self A)) ''original'' ''model''
              = Some (PyModel acce_model)"
  proof (rule optimize_returned)
    fix L' st
    assume L': "optimize_locals E A = Inr L'"
      and lp: "optimize_loop E A L' (available_dict E A) (initial_state A) = (None, st)"
      and rm: "optimized_model_dict (object_after (optimize E self A)) = Some (result_map st)"
    have L: "L' = L" using L' loc by simp
    from optimize_loop_entry[OF lp[unfolded L] dist mem]
    obtain calc ent calc' cs' where att: "attempt E A L ''original'' True calc = (None, ent, calc', cs')"
      and ent: "result_map st ''original'' = Some ent"
      by blast
    from attempt_measured(3)[OF att tab conv lat] ent rm
    show ?thesis by (simp add: recorded_def)
  qed
  then show "recorded (object_after (optimize E self A)) ''original'' ''status''
              = Some (PyStr ''successful'')"
    and "recorded (object_after (optimize E self A)) ''original'' ''model''
              = Some (PyModel acce_model)" by simp_all
qed

theorem original_is_never_early_stopped_witness:
  "raised_by (optimize example_env fresh_optimizer example_args) = None
   \<and> distinct (map fst (available_dict example_env example_args))
   \<and> (''original'', True) \<in> set (available_dict example_env example_args)
   \<and> optimize_locals example_env example_args = Inr example_locals
   \<and> TFAccelerationOption_optimize example_env TFAccelerationOption (l_model example_locals)
        (arg_x example_args) (arg_y example_args) (l_thread_num example_locals)
        (arg_logging example_args) (l_sample_size_for_pot example_locals) = Inr ''keras''
   \<and> throughput_calculate_helper example_env (arg_latency_sample_num example_args)
        (l_baseline_time example_locals) ''keras'' (l_input_sample example_locals)
        = Inr (12, False)
   \<and> recorded (object_after (optimize example_env fresh_optimizer example_args))
        ''original'' ''status'' \<noteq> Some (PyStr ''early stopped'')
   \<and> recorded (object_after (optimize example_env fresh_optimizer example_args))
        ''original'' ''status'' = Some (PyStr ''successful'')
   \<and> recorded (object_after (optimize example_env fresh_optimizer example_args))
        ''original'' ''model'' = Some (PyModel ''keras'')"
proof -
  have h2: "distinct (map fst (available_dict example_env example_args))"
    and h3: "(''original'', True) \<in> set (available_dict example_env example_args)"
    by (simp_all add: example_available)
  note t = original_is_never_early_stopped[of example_env fresh_optimizer example_args
      example_locals "''keras''" 12 False]
  have c1: "recorded (object_after (optimize example_env fresh_optimizer example_args))
        ''original'' ''status'' \<noteq> Some (PyStr ''early stopped'')"
    by (rule conjunct1[OF t, rule_format, OF example_returns])
  have c2: "recorded (object_after (optimize example_env fresh_optimizer example_args))
        ''original'' ''status'' = Some (PyStr ''successful'')
   \<and> recorded (object_after (optimize example_env fresh_optimizer example_args))
        ''original'' ''model'' = Some (PyModel ''keras'')"
    by (rule conjunct2[OF t, rule_format, OF example_returns h2 h3 example_locals
          example_original])
  from example_returns h2 h3 example_locals example_original c1 c2
  show ?thesis by blast
qed

end
